theory Spec2Isabelle
  imports Main "HOL-Library.AList"
begin

section \<open>Addresses\<close>

text \<open>
  Modelled from the spec: the address package, which the state package consumes, is
  missing. An address is the data it carries: a module instance is "a path of module-call
  steps, each optionally indexed by a repetition key", an instance key is "none / integer
  / string". The maps of the state tree are keyed by the address itself.
\<close>

datatype InstanceKey = NoKey | IntKey int | StringKey string

type_synonym ModuleInstanceStep = "string \<times> InstanceKey"

type_synonym ModuleInstance = "ModuleInstanceStep list"

definition RootModuleInstance :: ModuleInstance where
  "RootModuleInstance = []"

definition IsRoot :: "ModuleInstance \<Rightarrow> bool" where
  "IsRoot addr = (length addr = 0)"

datatype ResourceMode = ManagedResourceMode | DataResourceMode

record Resource_addr =
  Mode :: ResourceMode
  Type :: string
  Name :: string

record ResourceInstance_addr =
  ri_Resource :: Resource_addr
  ri_Key :: InstanceKey

record AbsResource =
  ar_Module :: ModuleInstance
  ar_Resource :: Resource_addr

record AbsResourceInstance =
  ari_Module :: ModuleInstance
  ari_Resource :: ResourceInstance_addr

record AbsOutputValue =
  aov_Module :: ModuleInstance
  aov_Name :: string

record AbsLocalValue =
  alv_Module :: ModuleInstance
  alv_Name :: string

section \<open>The state tree\<close>

text \<open>
  Modelled from the spec: values of outputs and locals, provider configuration references,
  check results and deposed keys are opaque to the state container; they are carried as
  strings, the empty string being the key that denotes "not deposed".
\<close>

type_synonym cty_Value = string

type_synonym AbsProviderConfig = string

type_synonym CheckResults = string

type_synonym DeposedKey = string

definition NotDeposed :: DeposedKey where
  "NotDeposed = []"

datatype ObjectStatus = ObjectReady | ObjectTainted | ObjectPlanned

record ResourceInstanceObjectSrc =
  Status :: ObjectStatus
  Payload :: string
  Dependencies :: "string list"
  PartialValues :: bool

record OutputValue =
  Value :: cty_Value
  Sensitive :: bool
  Deprecated :: string

record ResourceInstance =
  Current :: "ResourceInstanceObjectSrc option"
  Deposed :: "(DeposedKey \<times> ResourceInstanceObjectSrc) list"

record Resource =
  Instances :: "(InstanceKey \<times> ResourceInstance) list"
  ProviderConfig :: AbsProviderConfig
  ProviderKey :: InstanceKey

record Module =
  Resources :: "(Resource_addr \<times> Resource) list"
  OutputValues :: "(string \<times> OutputValue) list"
  LocalValues :: "(string \<times> cty_Value) list"

record State =
  Modules :: "(ModuleInstance \<times> Module) list"
  CheckResults :: "CheckResults option"

text \<open>
  Modelled from the spec: the type declarations of the state package are missing; the
  records above follow the data model of section 3. A module record carries the address
  it is stored under, and so does a resource; an entry of a map stands for both.
  A Go map is an association list here, read with \<^const>\<open>map_of\<close>, written with
  \<^const>\<open>AList.update\<close> and \<^const>\<open>AList.delete\<close>; an absent entry is the nil pointer.
\<close>

datatype error = Panic string

section \<open>Primitives of the state tree\<close>

text \<open>
  The single-threaded operations on the tree, the module and the instance, which the
  facade calls, are missing from the sources; each is modelled from section 4.1 of the
  specification. A method with a pointer receiver takes the record and returns the
  updated one; the caller stores it back where the pointer pointed.
\<close>

definition NewModule :: Module where
  \<comment> \<open>Modelled from the spec: the constructor of a module record is missing; EnsureModule
      "inserts an empty module record if absent".\<close>
  "NewModule = \<lparr>Resources = [], OutputValues = [], LocalValues = []\<rparr>"

definition State_Module :: "State \<Rightarrow> ModuleInstance \<Rightarrow> Module option" where
  \<comment> \<open>Modelled from the spec: State.Module is missing; it "returns the record or a nil/absent
      sentinel; read-only, no side effects".\<close>
  "State_Module s addr = map_of (Modules s) addr"

definition State_putModule :: "ModuleInstance \<Rightarrow> Module \<Rightarrow> State \<Rightarrow> State" where
  \<comment> \<open>The write through a module pointer obtained from the tree at \<open>addr\<close>.\<close>
  "State_putModule addr ms s = s\<lparr>Modules := AList.update addr ms (Modules s)\<rparr>"

definition State_EnsureModule :: "ModuleInstance \<Rightarrow> State \<Rightarrow> Module \<times> State" where
  \<comment> \<open>Modelled from the spec: State.EnsureModule is missing; it "returns existing or
      newly-created ModuleState for addr; never fails; side effect: inserts an empty module
      record if absent".\<close>
  "State_EnsureModule addr s =
     (case State_Module s addr of
        Some ms \<Rightarrow> (ms, s)
      | None \<Rightarrow> (NewModule, State_putModule addr NewModule s))"

definition State_RemoveModule :: "ModuleInstance \<Rightarrow> State \<Rightarrow> State" where
  \<comment> \<open>Modelled from the spec: State.RemoveModule is missing. It removes the entry of the
      module; "the root module ... is permanently retained" and its address "always has an
      entry", and removals "are no-ops ... rather than failing", so a request for the root
      leaves the tree as it is.\<close>
  "State_RemoveModule addr s =
     (if IsRoot addr then s else s\<lparr>Modules := AList.delete addr (Modules s)\<rparr>)"

definition Module_empty :: "Module \<Rightarrow> bool" where
  \<comment> \<open>Modelled from the spec: Module.empty is missing; "true iff zero resources, zero
      outputs, zero locals".\<close>
  "Module_empty ms \<longleftrightarrow>
     length (Resources ms) = 0 \<and> length (OutputValues ms) = 0 \<and> length (LocalValues ms) = 0"

definition Module_Resource :: "Module \<Rightarrow> Resource_addr \<Rightarrow> Resource option" where
  \<comment> \<open>Modelled from the spec: Module.Resource is missing; a lookup that returns the record
      or nil.\<close>
  "Module_Resource ms addr = map_of (Resources ms) addr"

definition Resource_Instance :: "Resource \<Rightarrow> InstanceKey \<Rightarrow> ResourceInstance option" where
  \<comment> \<open>Modelled from the spec: the lookup of an instance of a resource by its key is missing.\<close>
  "Resource_Instance rs key = map_of (Instances rs) key"

definition Module_ResourceInstance ::
  "Module \<Rightarrow> ResourceInstance_addr \<Rightarrow> ResourceInstance option" where
  \<comment> \<open>Modelled from the spec: Module.ResourceInstance is missing; a lookup that returns the
      record or nil.\<close>
  "Module_ResourceInstance ms addr =
     (case Module_Resource ms (ri_Resource addr) of
        None \<Rightarrow> None
      | Some rs \<Rightarrow> Resource_Instance rs (ri_Key addr))"

definition State_Resource :: "State \<Rightarrow> AbsResource \<Rightarrow> Resource option" where
  \<comment> \<open>Modelled from the spec: State.Resource is missing; a keyed traversal from the root
      that returns the record or nil.\<close>
  "State_Resource s addr =
     (case State_Module s (ar_Module addr) of
        None \<Rightarrow> None
      | Some ms \<Rightarrow> Module_Resource ms (ar_Resource addr))"

definition State_ResourceInstance :: "State \<Rightarrow> AbsResourceInstance \<Rightarrow> ResourceInstance option" where
  \<comment> \<open>Modelled from the spec: State.ResourceInstance is missing; a keyed traversal from the
      root that returns the record or nil.\<close>
  "State_ResourceInstance s addr =
     (case State_Module s (ari_Module addr) of
        None \<Rightarrow> None
      | Some ms \<Rightarrow> Module_ResourceInstance ms (ari_Resource addr))"

definition State_OutputValue :: "State \<Rightarrow> AbsOutputValue \<Rightarrow> OutputValue option" where
  \<comment> \<open>Modelled from the spec: State.OutputValue is missing; a lookup that returns the record
      or nil.\<close>
  "State_OutputValue s addr =
     (case State_Module s (aov_Module addr) of
        None \<Rightarrow> None
      | Some ms \<Rightarrow> map_of (OutputValues ms) (aov_Name addr))"

definition State_LocalValue :: "State \<Rightarrow> AbsLocalValue \<Rightarrow> cty_Value option" where
  \<comment> \<open>Modelled from the spec: State.LocalValue is missing; a lookup that returns the value
      or an absence indicator.\<close>
  "State_LocalValue s addr =
     (case State_Module s (alv_Module addr) of
        None \<Rightarrow> None
      | Some ms \<Rightarrow> map_of (LocalValues ms) (alv_Name addr))"

definition Module_SetOutputValue :: "string \<Rightarrow> cty_Value \<Rightarrow> bool \<Rightarrow> string \<Rightarrow> Module \<Rightarrow> Module" where
  \<comment> \<open>Modelled from the spec: Module.SetOutputValue is missing; "upsert by name within a
      module; overwrite semantics (no merge)".\<close>
  "Module_SetOutputValue name v sensitive deprecated ms =
     ms\<lparr>OutputValues :=
          AList.update name \<lparr>Value = v, Sensitive = sensitive, Deprecated = deprecated\<rparr>
            (OutputValues ms)\<rparr>"

definition Module_RemoveOutputValue :: "string \<Rightarrow> Module \<Rightarrow> Module" where
  \<comment> \<open>Modelled from the spec: Module.RemoveOutputValue is missing; "delete by name".\<close>
  "Module_RemoveOutputValue name ms = ms\<lparr>OutputValues := AList.delete name (OutputValues ms)\<rparr>"

definition Module_SetLocalValue :: "string \<Rightarrow> cty_Value \<Rightarrow> Module \<Rightarrow> Module" where
  \<comment> \<open>Modelled from the spec: Module.SetLocalValue is missing; "upsert by name within a
      module; overwrite semantics (no merge)".\<close>
  "Module_SetLocalValue name v ms = ms\<lparr>LocalValues := AList.update name v (LocalValues ms)\<rparr>"

definition Module_RemoveLocalValue :: "string \<Rightarrow> Module \<Rightarrow> Module" where
  \<comment> \<open>Modelled from the spec: Module.RemoveLocalValue is missing; "delete by name".\<close>
  "Module_RemoveLocalValue name ms = ms\<lparr>LocalValues := AList.delete name (LocalValues ms)\<rparr>"

definition NewResource :: "AbsProviderConfig \<Rightarrow> Resource" where
  \<comment> \<open>Modelled from the spec: the constructor of a resource record is missing; a resource
      created on first write has no instance yet.\<close>
  "NewResource provider = \<lparr>Instances = [], ProviderConfig = provider, ProviderKey = NoKey\<rparr>"

definition NewResourceInstance :: ResourceInstance where
  \<comment> \<open>Modelled from the spec: the constructor of an instance record is missing; an instance
      created on first write has no object yet.\<close>
  "NewResourceInstance = \<lparr>Current = None, Deposed = []\<rparr>"

definition Module_SetResourceProvider :: "Resource_addr \<Rightarrow> AbsProviderConfig \<Rightarrow> Module \<Rightarrow> Module" where
  \<comment> \<open>Modelled from the spec: Module.SetResourceProvider is missing; it updates the
      resource-level metadata, "creating ... resource state as a side-effect if not already
      present".\<close>
  "Module_SetResourceProvider addr provider ms =
     (case Module_Resource ms addr of
        None \<Rightarrow> ms\<lparr>Resources := AList.update addr (NewResource provider) (Resources ms)\<rparr>
      | Some rs \<Rightarrow>
          ms\<lparr>Resources := AList.update addr (rs\<lparr>ProviderConfig := provider\<rparr>) (Resources ms)\<rparr>)"

definition Module_RemoveResource :: "Resource_addr \<Rightarrow> Module \<Rightarrow> Module" where
  \<comment> \<open>Modelled from the spec: Module.RemoveResource is missing; a removal, which tolerates
      absence.\<close>
  "Module_RemoveResource addr ms = ms\<lparr>Resources := AList.delete addr (Resources ms)\<rparr>"

definition HasObjects :: "ResourceInstance \<Rightarrow> bool" where
  \<comment> \<open>Modelled from the spec: the test for "neither a current nor any deposed generation" is
      missing.\<close>
  "HasObjects i \<longleftrightarrow> Current i \<noteq> None \<or> length (Deposed i) \<noteq> 0"

definition Module_storeInstance ::
  "ResourceInstance_addr \<Rightarrow> Resource \<Rightarrow> ResourceInstance \<Rightarrow> Module \<Rightarrow> Module" where
  \<comment> \<open>Modelled from the spec: the end of both instance writes. "If, after this operation, the
      targeted instance has neither a current nor any deposed generation, the instance record
      itself is deleted; if that empties the containing resource, the resource is deleted."\<close>
  "Module_storeInstance addr rs i ms =
     (if HasObjects i then
        ms\<lparr>Resources :=
             AList.update (ri_Resource addr)
               (rs\<lparr>Instances := AList.update (ri_Key addr) i (Instances rs)\<rparr>) (Resources ms)\<rparr>
      else
        (let insts = AList.delete (ri_Key addr) (Instances rs) in
         if length insts = 0 then
           ms\<lparr>Resources := AList.delete (ri_Resource addr) (Resources ms)\<rparr>
         else
           ms\<lparr>Resources :=
                AList.update (ri_Resource addr) (rs\<lparr>Instances := insts\<rparr>) (Resources ms)\<rparr>))"

definition Module_SetResourceInstanceCurrent ::
  "ResourceInstance_addr \<Rightarrow> ResourceInstanceObjectSrc option \<Rightarrow> AbsProviderConfig \<Rightarrow> InstanceKey
     \<Rightarrow> Module \<Rightarrow> Module" where
  \<comment> \<open>Modelled from the spec: Module.SetResourceInstanceCurrent is missing. "Writing obj = nil
      removes the current generation; writing non-nil replaces it unconditionally. As a side
      effect, updates the resource-wide provider configuration reference and provider instance
      key." Resource and instance are created on first write.\<close>
  "Module_SetResourceInstanceCurrent addr obj provider providerKey ms =
     (let rs = (case Module_Resource ms (ri_Resource addr) of
                  None \<Rightarrow> NewResource provider
                | Some rs \<Rightarrow> rs);
          i = (case Resource_Instance rs (ri_Key addr) of
                 None \<Rightarrow> NewResourceInstance
               | Some i \<Rightarrow> i)
      in Module_storeInstance addr
           (rs\<lparr>ProviderConfig := provider, ProviderKey := providerKey\<rparr>)
           (i\<lparr>Current := obj\<rparr>) ms)"

definition Module_SetResourceInstanceDeposed ::
  "ResourceInstance_addr \<Rightarrow> DeposedKey \<Rightarrow> ResourceInstanceObjectSrc option \<Rightarrow> AbsProviderConfig
     \<Rightarrow> InstanceKey \<Rightarrow> Module \<Rightarrow> error + Module" where
  \<comment> \<open>Modelled from the spec: Module.SetResourceInstanceDeposed is missing. "Same
      overwrite/removal semantics as above but keyed by an explicit deposed key ... Precondition:
      caller supplies a valid (non-sentinel) key. If the resource does not already exist in the
      tree, this is a programming error (fails loudly)." Section 7 makes the sentinel key, where
      a real key is required, a fatal programming error as well.\<close>
  "Module_SetResourceInstanceDeposed addr key obj provider providerKey ms =
     (case Module_Resource ms (ri_Resource addr) of
        None \<Rightarrow> Inl (Panic ''SetResourceInstanceDeposed: resource is not tracked'')
      | Some rs \<Rightarrow>
          if key = NotDeposed then
            Inl (Panic ''SetResourceInstanceDeposed called without DeposedKey'')
          else
            (let i = (case Resource_Instance rs (ri_Key addr) of
                        None \<Rightarrow> NewResourceInstance
                      | Some i \<Rightarrow> i)
             in Inr (Module_storeInstance addr
                       (rs\<lparr>ProviderConfig := provider, ProviderKey := providerKey\<rparr>)
                       (i\<lparr>Deposed := (case obj of
                                        None \<Rightarrow> AList.delete key (Deposed i)
                                      | Some ob \<Rightarrow> AList.update key ob (Deposed i))\<rparr>) ms)))"

definition findUnusedDeposedKey :: "ResourceInstance \<Rightarrow> DeposedKey" where
  \<comment> \<open>Modelled from the spec: the allocation of a deposed key is missing; "a fresh
      collision-free key is allocated", one that avoids "collision with any deposed key already
      present on the same instance" and is not the sentinel. The key chosen here is longer than
      every key in use.\<close>
  "findUnusedDeposedKey i =
     replicate (Suc (foldr max (map (\<lambda>e. length (fst e)) (Deposed i)) 0)) (CHR ''0'')"

definition Module_putInstance ::
  "ResourceInstance_addr \<Rightarrow> Resource \<Rightarrow> ResourceInstance \<Rightarrow> Module \<Rightarrow> Module" where
  \<comment> \<open>The write through an instance pointer obtained from the module at \<open>addr\<close>, inside the
      resource \<open>rs\<close>.\<close>
  "Module_putInstance addr rs i ms =
     ms\<lparr>Resources :=
          AList.update (ri_Resource addr)
            (rs\<lparr>Instances := AList.update (ri_Key addr) i (Instances rs)\<rparr>) (Resources ms)\<rparr>"

definition Module_deposeResourceInstanceObject ::
  "ResourceInstance_addr \<Rightarrow> DeposedKey \<Rightarrow> Module \<Rightarrow> error + (DeposedKey \<times> Module)" where
  \<comment> \<open>Modelled from the spec: Module.deposeResourceInstanceObject is missing. It "moves the
      current generation (if any) into the deposed set. If forcedKey is the not-deposed sentinel,
      a fresh collision-free key is allocated; otherwise the given key is used, and using a key
      already present in the deposed set is a programming error (fails loudly) ... If there is no
      current object, this is a no-op that reports not-deposed as the key used."\<close>
  "Module_deposeResourceInstanceObject addr forcedKey ms =
     (case Module_Resource ms (ri_Resource addr) of
        None \<Rightarrow> Inr (NotDeposed, ms)
      | Some rs \<Rightarrow>
          (case Resource_Instance rs (ri_Key addr) of
             None \<Rightarrow> Inr (NotDeposed, ms)
           | Some i \<Rightarrow>
               (case Current i of
                  None \<Rightarrow> Inr (NotDeposed, ms)
                | Some cur \<Rightarrow>
                    if forcedKey = NotDeposed then
                      (let key = findUnusedDeposedKey i
                       in Inr (key, Module_putInstance addr rs
                                      (i\<lparr>Current := None,
                                         Deposed := AList.update key cur (Deposed i)\<rparr>) ms))
                    else if map_of (Deposed i) forcedKey \<noteq> None then
                      Inl (Panic ''forced deposed key is already in use'')
                    else
                      Inr (forcedKey, Module_putInstance addr rs
                                        (i\<lparr>Current := None,
                                           Deposed := AList.update forcedKey cur (Deposed i)\<rparr>) ms))))"

definition Module_maybeRestoreResourceInstanceDeposed ::
  "ResourceInstance_addr \<Rightarrow> DeposedKey \<Rightarrow> Module \<Rightarrow> bool \<times> Module" where
  \<comment> \<open>Modelled from the spec: Module.maybeRestoreResourceInstanceDeposed is missing. It "moves
      the named deposed generation back to current only if there is currently no current object;
      returns whether the restoration happened".\<close>
  "Module_maybeRestoreResourceInstanceDeposed addr key ms =
     (case Module_Resource ms (ri_Resource addr) of
        None \<Rightarrow> (False, ms)
      | Some rs \<Rightarrow>
          (case Resource_Instance rs (ri_Key addr) of
             None \<Rightarrow> (False, ms)
           | Some i \<Rightarrow>
               if Current i \<noteq> None then (False, ms)
               else
                 (case map_of (Deposed i) key of
                    None \<Rightarrow> (False, ms)
                  | Some ob \<Rightarrow>
                      (True, Module_putInstance addr rs
                               (i\<lparr>Current := Some ob,
                                  Deposed := AList.delete key (Deposed i)\<rparr>) ms))))"

definition Module_ForgetResourceInstanceAll :: "ResourceInstance_addr \<Rightarrow> Module \<Rightarrow> Module" where
  \<comment> \<open>Modelled from the spec: Module.ForgetResourceInstanceAll is missing; "unconditional
      deletion of tracking records", a no-op on an address that does not exist; "removing the
      last instance removes the resource".\<close>
  "Module_ForgetResourceInstanceAll addr ms =
     (case Module_Resource ms (ri_Resource addr) of
        None \<Rightarrow> ms
      | Some rs \<Rightarrow>
          (case Resource_Instance rs (ri_Key addr) of
             None \<Rightarrow> ms
           | Some i \<Rightarrow>
               (let insts = AList.delete (ri_Key addr) (Instances rs) in
                if length insts = 0 then
                  ms\<lparr>Resources := AList.delete (ri_Resource addr) (Resources ms)\<rparr>
                else
                  ms\<lparr>Resources :=
                       AList.update (ri_Resource addr) (rs\<lparr>Instances := insts\<rparr>) (Resources ms)\<rparr>)))"

definition Module_ForgetResourceInstanceDeposed ::
  "ResourceInstance_addr \<Rightarrow> DeposedKey \<Rightarrow> Module \<Rightarrow> Module" where
  \<comment> \<open>Modelled from the spec: Module.ForgetResourceInstanceDeposed is missing; "unconditional
      deletion of tracking records", a no-op on an address that does not exist; an instance left
      without objects is removed, and so is a resource left without instances.\<close>
  "Module_ForgetResourceInstanceDeposed addr key ms =
     (case Module_Resource ms (ri_Resource addr) of
        None \<Rightarrow> ms
      | Some rs \<Rightarrow>
          (case Resource_Instance rs (ri_Key addr) of
             None \<Rightarrow> ms
           | Some i \<Rightarrow>
               Module_storeInstance addr rs (i\<lparr>Deposed := AList.delete key (Deposed i)\<rparr>) ms))"


section \<open>The synchronized facade\<close>

text \<open>
  Each method of SyncState runs under the lock, so it is a function from the tree before
  the call to the tree after it, together with the value returned. A method that can
  panic returns a sum: on the left the panic and the tree as it was when the panic was
  raised, on the right the normal return.
\<close>

definition maybePruneModule :: "ModuleInstance \<Rightarrow> State \<Rightarrow> State" where
  "maybePruneModule addr s =
     (if IsRoot addr then s
      else
        (case State_Module s addr of
           None \<Rightarrow> s
         | Some ms \<Rightarrow> if Module_empty ms then State_RemoveModule addr s else s))"

definition SyncState_RemoveModule :: "ModuleInstance \<Rightarrow> State \<Rightarrow> State" where
  "SyncState_RemoveModule addr s = State_RemoveModule addr s"

definition SyncState_SetOutputValue ::
  "AbsOutputValue \<Rightarrow> cty_Value \<Rightarrow> bool \<Rightarrow> string \<Rightarrow> State \<Rightarrow> State" where
  "SyncState_SetOutputValue addr v sensitive deprecated s =
     (case State_EnsureModule (aov_Module addr) s of
        (ms, s1) \<Rightarrow>
          State_putModule (aov_Module addr)
            (Module_SetOutputValue (aov_Name addr) v sensitive deprecated ms) s1)"

definition SyncState_RemoveOutputValue :: "AbsOutputValue \<Rightarrow> State \<Rightarrow> State" where
  "SyncState_RemoveOutputValue addr s =
     (case State_Module s (aov_Module addr) of
        None \<Rightarrow> s
      | Some ms \<Rightarrow>
          maybePruneModule (aov_Module addr)
            (State_putModule (aov_Module addr) (Module_RemoveOutputValue (aov_Name addr) ms) s))"

definition SyncState_SetLocalValue :: "AbsLocalValue \<Rightarrow> cty_Value \<Rightarrow> State \<Rightarrow> State" where
  "SyncState_SetLocalValue addr v s =
     (case State_EnsureModule (alv_Module addr) s of
        (ms, s1) \<Rightarrow>
          State_putModule (alv_Module addr) (Module_SetLocalValue (alv_Name addr) v ms) s1)"

definition SyncState_RemoveLocalValue :: "AbsLocalValue \<Rightarrow> State \<Rightarrow> State" where
  "SyncState_RemoveLocalValue addr s =
     (case State_Module s (alv_Module addr) of
        None \<Rightarrow> s
      | Some ms \<Rightarrow>
          maybePruneModule (alv_Module addr)
            (State_putModule (alv_Module addr) (Module_RemoveLocalValue (alv_Name addr) ms) s))"

definition SyncState_SetResourceProvider :: "AbsResource \<Rightarrow> AbsProviderConfig \<Rightarrow> State \<Rightarrow> State" where
  "SyncState_SetResourceProvider addr provider s =
     (case State_EnsureModule (ar_Module addr) s of
        (ms, s1) \<Rightarrow>
          State_putModule (ar_Module addr)
            (Module_SetResourceProvider (ar_Resource addr) provider ms) s1)"

definition SyncState_RemoveResource :: "AbsResource \<Rightarrow> State \<Rightarrow> State" where
  "SyncState_RemoveResource addr s =
     (case State_EnsureModule (ar_Module addr) s of
        (ms, s1) \<Rightarrow>
          maybePruneModule (ar_Module addr)
            (State_putModule (ar_Module addr) (Module_RemoveResource (ar_Resource addr) ms) s1))"

definition SyncState_RemoveResourceIfEmpty :: "AbsResource \<Rightarrow> State \<Rightarrow> bool \<times> State" where
  "SyncState_RemoveResourceIfEmpty addr s =
     (case State_Module s (ar_Module addr) of
        None \<Rightarrow> (True, s)
      | Some ms \<Rightarrow>
          (case Module_Resource ms (ar_Resource addr) of
             None \<Rightarrow> (True, s)
           | Some rs \<Rightarrow>
               if length (Instances rs) \<noteq> 0 then (False, s)
               else
                 (True,
                  maybePruneModule (ar_Module addr)
                    (State_putModule (ar_Module addr)
                       (Module_RemoveResource (ar_Resource addr) ms) s))))"

definition SyncState_SetResourceInstanceCurrent ::
  "AbsResourceInstance \<Rightarrow> ResourceInstanceObjectSrc option \<Rightarrow> AbsProviderConfig \<Rightarrow> InstanceKey
     \<Rightarrow> State \<Rightarrow> State" where
  "SyncState_SetResourceInstanceCurrent addr obj provider providerKey s =
     (case State_EnsureModule (ari_Module addr) s of
        (ms, s1) \<Rightarrow>
          maybePruneModule (ari_Module addr)
            (State_putModule (ari_Module addr)
               (Module_SetResourceInstanceCurrent (ari_Resource addr) obj provider providerKey ms)
               s1))"

definition SyncState_SetResourceInstanceDeposed ::
  "AbsResourceInstance \<Rightarrow> DeposedKey \<Rightarrow> ResourceInstanceObjectSrc option \<Rightarrow> AbsProviderConfig
     \<Rightarrow> InstanceKey \<Rightarrow> State \<Rightarrow> (error \<times> State) + State" where
  "SyncState_SetResourceInstanceDeposed addr key obj provider providerKey s =
     (case State_EnsureModule (ari_Module addr) s of
        (ms, s1) \<Rightarrow>
          (case Module_SetResourceInstanceDeposed (ari_Resource addr) key obj provider
                  providerKey ms of
             Inl e \<Rightarrow> Inl (e, s1)
           | Inr ms' \<Rightarrow>
               Inr (maybePruneModule (ari_Module addr)
                      (State_putModule (ari_Module addr) ms' s1))))"

definition SyncState_DeposeResourceInstanceObject ::
  "AbsResourceInstance \<Rightarrow> State \<Rightarrow> (error \<times> State) + (DeposedKey \<times> State)" where
  "SyncState_DeposeResourceInstanceObject addr s =
     (case State_Module s (ari_Module addr) of
        None \<Rightarrow> Inr (NotDeposed, s)
      | Some ms \<Rightarrow>
          (case Module_deposeResourceInstanceObject (ari_Resource addr) NotDeposed ms of
             Inl e \<Rightarrow> Inl (e, s)
           | Inr (key, ms') \<Rightarrow> Inr (key, State_putModule (ari_Module addr) ms' s)))"

definition SyncState_DeposeResourceInstanceObjectForceKey ::
  "AbsResourceInstance \<Rightarrow> DeposedKey \<Rightarrow> State \<Rightarrow> (error \<times> State) + State" where
  "SyncState_DeposeResourceInstanceObjectForceKey addr forcedKey s =
     (if forcedKey = NotDeposed then
        Inl (Panic ''DeposeResourceInstanceObjectForceKey called without forced key'', s)
      else
        (case State_Module s (ari_Module addr) of
           None \<Rightarrow> Inr s
         | Some ms \<Rightarrow>
             (case Module_deposeResourceInstanceObject (ari_Resource addr) forcedKey ms of
                Inl e \<Rightarrow> Inl (e, s)
              | Inr (key, ms') \<Rightarrow> Inr (State_putModule (ari_Module addr) ms' s))))"

definition SyncState_ForgetResourceInstanceAll :: "AbsResourceInstance \<Rightarrow> State \<Rightarrow> State" where
  "SyncState_ForgetResourceInstanceAll addr s =
     (case State_Module s (ari_Module addr) of
        None \<Rightarrow> s
      | Some ms \<Rightarrow>
          maybePruneModule (ari_Module addr)
            (State_putModule (ari_Module addr)
               (Module_ForgetResourceInstanceAll (ari_Resource addr) ms) s))"

definition SyncState_ForgetResourceInstanceDeposed ::
  "AbsResourceInstance \<Rightarrow> DeposedKey \<Rightarrow> State \<Rightarrow> State" where
  "SyncState_ForgetResourceInstanceDeposed addr key s =
     (case State_Module s (ari_Module addr) of
        None \<Rightarrow> s
      | Some ms \<Rightarrow>
          maybePruneModule (ari_Module addr)
            (State_putModule (ari_Module addr)
               (Module_ForgetResourceInstanceDeposed (ari_Resource addr) key ms) s))"

definition SyncState_MaybeRestoreResourceInstanceDeposed ::
  "AbsResourceInstance \<Rightarrow> DeposedKey \<Rightarrow> State \<Rightarrow> (error \<times> State) + (bool \<times> State)" where
  "SyncState_MaybeRestoreResourceInstanceDeposed addr key s =
     (if key = NotDeposed then
        Inl (Panic ''MaybeRestoreResourceInstanceDeposed called without DeposedKey'', s)
      else
        (case State_Module s (ari_Module addr) of
           None \<Rightarrow> Inr (False, s)
         | Some ms \<Rightarrow>
             (case Module_maybeRestoreResourceInstanceDeposed (ari_Resource addr) key ms of
                (restored, ms') \<Rightarrow> Inr (restored, State_putModule (ari_Module addr) ms' s))))"

text \<open>
  RemovePlannedResourceInstanceObjects ranges over the modules, the resources of each
  module and the instances of each resource. The three loops are folds over the entries;
  the body of each writes to the module that the outer loop holds.
\<close>

definition RemovePlanned_instance ::
  "Resource_addr \<Rightarrow> AbsProviderConfig \<Rightarrow> InstanceKey \<times> ResourceInstance \<Rightarrow> Module \<Rightarrow> Module" where
  "RemovePlanned_instance resAddr provider e ms =
     (case e of
        (ik, i) \<Rightarrow>
          (let instAddr = \<lparr>ri_Resource = resAddr, ri_Key = ik\<rparr>;
               ms1 = (case Current i of
                        None \<Rightarrow> ms
                      | Some cur \<Rightarrow>
                          if Status cur = ObjectPlanned then
                            Module_SetResourceInstanceCurrent instAddr None provider NoKey ms
                          else ms)
           in fold (\<lambda>d m. if Status (snd d) = ObjectPlanned
                           then Module_ForgetResourceInstanceDeposed instAddr (fst d) m
                           else m)
                (Deposed i) ms1))"

definition RemovePlanned_resource :: "Resource_addr \<times> Resource \<Rightarrow> Module \<Rightarrow> Module" where
  "RemovePlanned_resource e ms =
     (case e of
        (resAddr, rs) \<Rightarrow>
          fold (RemovePlanned_instance resAddr (ProviderConfig rs)) (Instances rs) ms)"

definition RemovePlanned_module :: "ModuleInstance \<times> Module \<Rightarrow> State \<Rightarrow> State" where
  "RemovePlanned_module e s =
     (case e of
        (moduleAddr, ms) \<Rightarrow>
          maybePruneModule moduleAddr
            (State_putModule moduleAddr (fold RemovePlanned_resource (Resources ms) ms) s))"

definition SyncState_RemovePlannedResourceInstanceObjects :: "State \<Rightarrow> State" where
  "SyncState_RemovePlannedResourceInstanceObjects s = fold RemovePlanned_module (Modules s) s"

definition SyncState_DiscardCheckResults :: "State \<Rightarrow> State" where
  "SyncState_DiscardCheckResults s = s\<lparr>CheckResults := None\<rparr>"

definition SyncState_RecordCheckResults :: "CheckResults \<Rightarrow> State \<Rightarrow> State" where
  "SyncState_RecordCheckResults newResults s = s\<lparr>CheckResults := Some newResults\<rparr>"


text \<open>
  The read accessors return a snapshot. In this model of the tree by values a record read
  from the tree is already a copy: nothing done to it afterwards reaches the tree.
\<close>

datatype Generation = CurrentGen | DeposedGen DeposedKey

definition GetGeneration :: "ResourceInstance \<Rightarrow> Generation \<Rightarrow> ResourceInstanceObjectSrc option" where
  \<comment> \<open>Modelled from the spec: ResourceInstance.GetGeneration is missing; a generation is
      "either the single current one or one of possibly several deposed ones", told apart by
      their deposed keys.\<close>
  "GetGeneration i gen =
     (case gen of
        CurrentGen \<Rightarrow> Current i
      | DeposedGen key \<Rightarrow> map_of (Deposed i) key)"

definition SyncState_Module :: "ModuleInstance \<Rightarrow> State \<Rightarrow> Module option" where
  "SyncState_Module addr s = State_Module s addr"

definition SyncState_OutputValue :: "AbsOutputValue \<Rightarrow> State \<Rightarrow> OutputValue option" where
  "SyncState_OutputValue addr s = State_OutputValue s addr"

definition SyncState_LocalValue :: "AbsLocalValue \<Rightarrow> State \<Rightarrow> cty_Value option" where
  "SyncState_LocalValue addr s = State_LocalValue s addr"

definition SyncState_Resource :: "AbsResource \<Rightarrow> State \<Rightarrow> Resource option" where
  "SyncState_Resource addr s = State_Resource s addr"

definition SyncState_ResourceInstance :: "AbsResourceInstance \<Rightarrow> State \<Rightarrow> ResourceInstance option" where
  "SyncState_ResourceInstance addr s = State_ResourceInstance s addr"

definition SyncState_ResourceInstanceObject ::
  "AbsResourceInstance \<Rightarrow> Generation \<Rightarrow> State \<Rightarrow> ResourceInstanceObjectSrc option" where
  "SyncState_ResourceInstanceObject addr gen s =
     (case State_ResourceInstance s addr of
        None \<Rightarrow> None
      | Some inst \<Rightarrow> GetGeneration inst gen)"


section \<open>Sequences of facade operations\<close>

text \<open>
  The write, removal and lifecycle operations of the facade as data, so that a run of the
  graph walk is a list of them. The lock serialises the calls, and a panic ends the run.
\<close>

datatype Op =
    OpRemoveModule ModuleInstance
  | OpSetOutputValue AbsOutputValue cty_Value bool string
  | OpRemoveOutputValue AbsOutputValue
  | OpSetLocalValue AbsLocalValue cty_Value
  | OpRemoveLocalValue AbsLocalValue
  | OpSetResourceProvider AbsResource AbsProviderConfig
  | OpRemoveResource AbsResource
  | OpRemoveResourceIfEmpty AbsResource
  | OpSetResourceInstanceCurrent AbsResourceInstance "ResourceInstanceObjectSrc option"
      AbsProviderConfig InstanceKey
  | OpSetResourceInstanceDeposed AbsResourceInstance DeposedKey "ResourceInstanceObjectSrc option"
      AbsProviderConfig InstanceKey
  | OpDeposeResourceInstanceObject AbsResourceInstance
  | OpDeposeResourceInstanceObjectForceKey AbsResourceInstance DeposedKey
  | OpForgetResourceInstanceAll AbsResourceInstance
  | OpForgetResourceInstanceDeposed AbsResourceInstance DeposedKey
  | OpMaybeRestoreResourceInstanceDeposed AbsResourceInstance DeposedKey
  | OpRemovePlannedResourceInstanceObjects
  | OpDiscardCheckResults
  | OpRecordCheckResults CheckResults

fun apply_op :: "Op \<Rightarrow> State \<Rightarrow> (error \<times> State) + State" where
  "apply_op (OpRemoveModule addr) s = Inr (SyncState_RemoveModule addr s)"
| "apply_op (OpSetOutputValue addr v sensitive deprecated) s =
     Inr (SyncState_SetOutputValue addr v sensitive deprecated s)"
| "apply_op (OpRemoveOutputValue addr) s = Inr (SyncState_RemoveOutputValue addr s)"
| "apply_op (OpSetLocalValue addr v) s = Inr (SyncState_SetLocalValue addr v s)"
| "apply_op (OpRemoveLocalValue addr) s = Inr (SyncState_RemoveLocalValue addr s)"
| "apply_op (OpSetResourceProvider addr provider) s =
     Inr (SyncState_SetResourceProvider addr provider s)"
| "apply_op (OpRemoveResource addr) s = Inr (SyncState_RemoveResource addr s)"
| "apply_op (OpRemoveResourceIfEmpty addr) s = Inr (snd (SyncState_RemoveResourceIfEmpty addr s))"
| "apply_op (OpSetResourceInstanceCurrent addr obj provider providerKey) s =
     Inr (SyncState_SetResourceInstanceCurrent addr obj provider providerKey s)"
| "apply_op (OpSetResourceInstanceDeposed addr key obj provider providerKey) s =
     SyncState_SetResourceInstanceDeposed addr key obj provider providerKey s"
| "apply_op (OpDeposeResourceInstanceObject addr) s =
     map_sum id snd (SyncState_DeposeResourceInstanceObject addr s)"
| "apply_op (OpDeposeResourceInstanceObjectForceKey addr forcedKey) s =
     SyncState_DeposeResourceInstanceObjectForceKey addr forcedKey s"
| "apply_op (OpForgetResourceInstanceAll addr) s = Inr (SyncState_ForgetResourceInstanceAll addr s)"
| "apply_op (OpForgetResourceInstanceDeposed addr key) s =
     Inr (SyncState_ForgetResourceInstanceDeposed addr key s)"
| "apply_op (OpMaybeRestoreResourceInstanceDeposed addr key) s =
     map_sum id snd (SyncState_MaybeRestoreResourceInstanceDeposed addr key s)"
| "apply_op OpRemovePlannedResourceInstanceObjects s =
     Inr (SyncState_RemovePlannedResourceInstanceObjects s)"
| "apply_op OpDiscardCheckResults s = Inr (SyncState_DiscardCheckResults s)"
| "apply_op (OpRecordCheckResults newResults) s = Inr (SyncState_RecordCheckResults newResults s)"

fun run :: "Op list \<Rightarrow> State \<Rightarrow> State list" where
  \<comment> \<open>The tree after each operation that completes, in order.\<close>
  "run [] s = []"
| "run (op # ops) s =
     (case apply_op op s of
        Inl e \<Rightarrow> []
      | Inr s' \<Rightarrow> s' # run ops s')"

definition emptyNonRootModules :: "State \<Rightarrow> ModuleInstance list" where
  \<comment> \<open>The addresses of the non-root modules present in the tree that have no resource, no
      output value and no local value.\<close>
  "emptyNonRootModules s =
     filter (\<lambda>a. \<not> IsRoot a \<and> (case State_Module s a of None \<Rightarrow> False | Some ms \<Rightarrow> Module_empty ms))
       (map fst (Modules s))"

definition PruningInvariant :: "State \<Rightarrow> bool" where
  "PruningInvariant s \<longleftrightarrow>
     State_Module s RootModuleInstance \<noteq> None \<and> emptyNonRootModules s = []"


section \<open>The tree as a store of cells\<close>

text \<open>
  The facade hands out pointers, and the caller may write through them. Whether such a
  write reaches the tree depends on what the pointer shares with the tree, which the model
  by values above cannot express. Here the tree lives in a store: a cell holds the fields
  that an object carries by value and, for each object it points to, an edge with the
  address of that object's cell. A module points to its resources and its output values,
  a resource to its instances, an instance to its current and its deposed objects.
  Allocation appends a cell to the store.
\<close>

type_synonym ref = nat

datatype fields =
    ModuleFields "(string \<times> cty_Value) list"
  | ResourceFields AbsProviderConfig InstanceKey
  | InstanceFields
  | ObjectFields ResourceInstanceObjectSrc
  | OutputFields OutputValue

datatype edge =
    ResourceEdge Resource_addr
  | OutputEdge string
  | InstanceEdge InstanceKey
  | GenerationEdge Generation

datatype cell = Cell (cell_fields: fields) (cell_edges: "(edge \<times> ref) list")

type_synonym heap = "cell list"

datatype snapshot = Snapshot fields "(edge \<times> snapshot) list"

primrec readEdges ::
  "(ref \<Rightarrow> snapshot option) \<Rightarrow> (edge \<times> ref) list \<Rightarrow> (edge \<times> snapshot) list option" where
  "readEdges rd [] = Some []"
| "readEdges rd (x # xs) =
     (case rd (snd x) of
        None \<Rightarrow> None
      | Some v \<Rightarrow>
          (case readEdges rd xs of
             None \<Rightarrow> None
           | Some vs \<Rightarrow> Some ((fst x, v) # vs)))"

primrec read :: "nat \<Rightarrow> heap \<Rightarrow> ref \<Rightarrow> snapshot option" where
  \<comment> \<open>The value that a pointer stands for: the object in its cell with, in place of each
      pointer, the value of the object pointed to. The first argument bounds the number of
      levels that are followed; there is no value where a pointer dangles or the levels
      run out.\<close>
  "read 0 h r = None"
| "read (Suc d) h r =
     (if r < length h then
        (case readEdges (read d h) (cell_edges (h ! r)) of
           None \<Rightarrow> None
         | Some vs \<Rightarrow> Some (Snapshot (cell_fields (h ! r)) vs))
      else None)"

primrec copyEdges ::
  "(heap \<Rightarrow> ref \<Rightarrow> (ref \<times> heap) option) \<Rightarrow> heap \<Rightarrow> (edge \<times> ref) list
     \<Rightarrow> ((edge \<times> ref) list \<times> heap) option" where
  "copyEdges c h [] = Some ([], h)"
| "copyEdges c h (x # xs) =
     (case c h (snd x) of
        None \<Rightarrow> None
      | Some (r', h1) \<Rightarrow>
          (case copyEdges c h1 xs of
             None \<Rightarrow> None
           | Some (xs', h2) \<Rightarrow> Some ((fst x, r') # xs', h2)))"

primrec DeepCopy :: "nat \<Rightarrow> heap \<Rightarrow> ref \<Rightarrow> (ref \<times> heap) option" where
  \<comment> \<open>Modelled from the spec: the DeepCopy methods are missing; "an explicit clone operation
      defined recursively over the entity hierarchy (module, resource, instance,
      generation)". The objects pointed to are cloned first, then a new cell takes the fields
      and the pointers to the clones. The first argument is the number of levels of the
      hierarchy below and including the object.\<close>
  "DeepCopy 0 h r = None"
| "DeepCopy (Suc d) h r =
     (if r < length h then
        (case copyEdges (DeepCopy d) h (cell_edges (h ! r)) of
           None \<Rightarrow> None
         | Some (es', h') \<Rightarrow> Some (length h', h' @ [Cell (cell_fields (h ! r)) es']))
      else None)"

primrec reach :: "nat \<Rightarrow> heap \<Rightarrow> ref \<Rightarrow> ref list" where
  \<comment> \<open>The cells that can be written through a pointer: its own and those that the pointers
      in it lead to.\<close>
  "reach 0 h r = [r]"
| "reach (Suc d) h r =
     r # (if r < length h then concat (map (\<lambda>x. reach d h (snd x)) (cell_edges (h ! r))) else [])"

definition mutated :: "ref list \<Rightarrow> heap \<Rightarrow> heap \<Rightarrow> bool" where
  \<comment> \<open>The second store is the first after any writes to the cells listed, and any
      allocations.\<close>
  "mutated owned h h' \<longleftrightarrow>
     length h \<le> length h' \<and> list_all (\<lambda>i. i \<in> set owned \<or> h' ! i = h ! i) [0..<length h]"

definition agree :: "nat \<Rightarrow> heap \<Rightarrow> heap \<Rightarrow> bool" where
  "agree n h h' \<longleftrightarrow> n \<le> length h \<and> n \<le> length h' \<and> list_all (\<lambda>i. h' ! i = h ! i) [0..<n]"

record PState =
  p_Modules :: "(ModuleInstance \<times> ref) list"
  p_heap :: heap

definition field_ptr :: "heap \<Rightarrow> ref \<Rightarrow> edge \<Rightarrow> ref option" where
  "field_ptr h r e = (if r < length h then map_of (cell_edges (h ! r)) e else None)"

definition HeapState_Module :: "PState \<Rightarrow> ModuleInstance \<Rightarrow> ref option" where
  \<comment> \<open>Modelled from the spec: State.Module, returning the pointer.\<close>
  "HeapState_Module ps addr = map_of (p_Modules ps) addr"

definition HeapState_Resource :: "PState \<Rightarrow> AbsResource \<Rightarrow> ref option" where
  \<comment> \<open>Modelled from the spec: State.Resource, returning the pointer.\<close>
  "HeapState_Resource ps addr =
     (case HeapState_Module ps (ar_Module addr) of
        None \<Rightarrow> None
      | Some ms \<Rightarrow> field_ptr (p_heap ps) ms (ResourceEdge (ar_Resource addr)))"

definition HeapState_ResourceInstance :: "PState \<Rightarrow> AbsResourceInstance \<Rightarrow> ref option" where
  \<comment> \<open>Modelled from the spec: State.ResourceInstance, returning the pointer.\<close>
  "HeapState_ResourceInstance ps addr =
     (case HeapState_Resource ps
             \<lparr>ar_Module = ari_Module addr, ar_Resource = ri_Resource (ari_Resource addr)\<rparr> of
        None \<Rightarrow> None
      | Some rs \<Rightarrow> field_ptr (p_heap ps) rs (InstanceEdge (ri_Key (ari_Resource addr))))"

definition HeapState_OutputValue :: "PState \<Rightarrow> AbsOutputValue \<Rightarrow> ref option" where
  \<comment> \<open>Modelled from the spec: State.OutputValue, returning the pointer.\<close>
  "HeapState_OutputValue ps addr =
     (case HeapState_Module ps (aov_Module addr) of
        None \<Rightarrow> None
      | Some ms \<Rightarrow> field_ptr (p_heap ps) ms (OutputEdge (aov_Name addr)))"

definition isOutputEdge :: "edge \<times> ref \<Rightarrow> bool" where
  "isOutputEdge e = (case fst e of OutputEdge name \<Rightarrow> True | _ \<Rightarrow> False)"

definition isCallOf :: "ModuleInstance \<Rightarrow> string \<Rightarrow> ModuleInstance \<Rightarrow> bool" where
  \<comment> \<open>The module instance is an instance of the named call inside the parent.\<close>
  "isCallOf parentAddr call addr \<longleftrightarrow>
     \<not> IsRoot addr \<and> butlast addr = parentAddr \<and> fst (last addr) = call"

primrec moduleOutputs ::
  "heap \<Rightarrow> ModuleInstance \<Rightarrow> string \<Rightarrow> (ModuleInstance \<times> ref) list \<Rightarrow> (edge \<times> ref) list option" where
  "moduleOutputs h parentAddr call [] = Some []"
| "moduleOutputs h parentAddr call (m # ms) =
     (if isCallOf parentAddr call (fst m) then
        (if snd m < length h then
           (case moduleOutputs h parentAddr call ms of
              None \<Rightarrow> None
            | Some os \<Rightarrow> Some (filter isOutputEdge (cell_edges (h ! snd m)) @ os))
         else None)
      else moduleOutputs h parentAddr call ms)"

definition HeapState_ModuleOutputs ::
  "PState \<Rightarrow> ModuleInstance \<Rightarrow> string \<Rightarrow> (edge \<times> ref) list option" where
  \<comment> \<open>Modelled from the spec: State.ModuleOutputs is missing; it "returns the set of
      OutputValues that matches the given path": the output values of the instances of the
      module call inside the parent.\<close>
  "HeapState_ModuleOutputs ps parentAddr call =
     moduleOutputs (p_heap ps) parentAddr call (p_Modules ps)"

definition depth_Object :: nat where
  "depth_Object = Suc 0"

definition depth_Output :: nat where
  "depth_Output = Suc 0"

definition depth_Instance :: nat where
  "depth_Instance = Suc depth_Object"

definition depth_Resource :: nat where
  "depth_Resource = Suc depth_Instance"

definition depth_Module :: nat where
  "depth_Module = Suc depth_Resource"

definition copyOut :: "nat \<Rightarrow> ref option \<Rightarrow> PState \<Rightarrow> (ref option \<times> PState) option" where
  \<comment> \<open>DeepCopy on a pointer that may be nil: the copy of nil is nil.\<close>
  "copyOut d p ps =
     (case p of
        None \<Rightarrow> Some (None, ps)
      | Some r \<Rightarrow>
          (case DeepCopy d (p_heap ps) r of
             None \<Rightarrow> None
           | Some (r', h') \<Rightarrow> Some (Some r', ps\<lparr>p_heap := h'\<rparr>)))"

text \<open>The read accessors of the facade, on the store.\<close>

definition HeapSync_Module :: "ModuleInstance \<Rightarrow> PState \<Rightarrow> (ref option \<times> PState) option" where
  "HeapSync_Module addr ps = copyOut depth_Module (HeapState_Module ps addr) ps"

definition HeapSync_ModuleOutputs ::
  "ModuleInstance \<Rightarrow> string \<Rightarrow> PState \<Rightarrow> (ref list \<times> PState) option" where
  "HeapSync_ModuleOutputs parentAddr call ps =
     (case HeapState_ModuleOutputs ps parentAddr call of
        None \<Rightarrow> None
      | Some os \<Rightarrow>
          (case copyEdges (DeepCopy depth_Output) (p_heap ps) os of
             None \<Rightarrow> None
           | Some (os', h') \<Rightarrow> Some (map snd os', ps\<lparr>p_heap := h'\<rparr>)))"

definition HeapSync_OutputValue :: "AbsOutputValue \<Rightarrow> PState \<Rightarrow> (ref option \<times> PState) option" where
  "HeapSync_OutputValue addr ps = copyOut depth_Output (HeapState_OutputValue ps addr) ps"

definition HeapSync_Resource :: "AbsResource \<Rightarrow> PState \<Rightarrow> (ref option \<times> PState) option" where
  "HeapSync_Resource addr ps = copyOut depth_Resource (HeapState_Resource ps addr) ps"

definition HeapSync_ResourceInstance ::
  "AbsResourceInstance \<Rightarrow> PState \<Rightarrow> (ref option \<times> PState) option" where
  "HeapSync_ResourceInstance addr ps =
     copyOut depth_Instance (HeapState_ResourceInstance ps addr) ps"

definition HeapSync_ResourceInstanceObject ::
  "AbsResourceInstance \<Rightarrow> Generation \<Rightarrow> PState \<Rightarrow> (ref option \<times> PState) option" where
  "HeapSync_ResourceInstanceObject addr gen ps =
     (case HeapState_ResourceInstance ps addr of
        None \<Rightarrow> Some (None, ps)
      | Some inst \<Rightarrow> copyOut depth_Object (field_ptr (p_heap ps) inst (GenerationEdge gen)) ps)"

datatype Accessor =
    AccModule ModuleInstance
  | AccResource AbsResource
  | AccResourceInstance AbsResourceInstance
  | AccResourceInstanceObject AbsResourceInstance Generation
  | AccOutputValue AbsOutputValue

fun HeapSync_read :: "Accessor \<Rightarrow> PState \<Rightarrow> (ref option \<times> PState) option" where
  "HeapSync_read (AccModule addr) ps = HeapSync_Module addr ps"
| "HeapSync_read (AccResource addr) ps = HeapSync_Resource addr ps"
| "HeapSync_read (AccResourceInstance addr) ps = HeapSync_ResourceInstance addr ps"
| "HeapSync_read (AccResourceInstanceObject addr gen) ps =
     HeapSync_ResourceInstanceObject addr gen ps"
| "HeapSync_read (AccOutputValue addr) ps = HeapSync_OutputValue addr ps"

fun target :: "PState \<Rightarrow> Accessor \<Rightarrow> ref option" where
  \<comment> \<open>The object of the tree that the accessor is asked for.\<close>
  "target ps (AccModule addr) = HeapState_Module ps addr"
| "target ps (AccResource addr) = HeapState_Resource ps addr"
| "target ps (AccResourceInstance addr) = HeapState_ResourceInstance ps addr"
| "target ps (AccResourceInstanceObject addr gen) =
     (case HeapState_ResourceInstance ps addr of
        None \<Rightarrow> None
      | Some inst \<Rightarrow> field_ptr (p_heap ps) inst (GenerationEdge gen))"
| "target ps (AccOutputValue addr) = HeapState_OutputValue ps addr"

fun depth :: "Accessor \<Rightarrow> nat" where
  "depth (AccModule addr) = depth_Module"
| "depth (AccResource addr) = depth_Resource"
| "depth (AccResourceInstance addr) = depth_Instance"
| "depth (AccResourceInstanceObject addr gen) = depth_Object"
| "depth (AccOutputValue addr) = depth_Output"

definition visible :: "PState \<Rightarrow> Accessor \<Rightarrow> snapshot option" where
  \<comment> \<open>The value that the tree holds at the address the accessor is asked for.\<close>
  "visible ps acc =
     (case target ps acc of
        None \<Rightarrow> None
      | Some p \<Rightarrow> read (depth acc) (p_heap ps) p)"

definition visibleOutputs ::
  "PState \<Rightarrow> ModuleInstance \<Rightarrow> string \<Rightarrow> (edge \<times> snapshot) list option" where
  "visibleOutputs ps parentAddr call =
     (case HeapState_ModuleOutputs ps parentAddr call of
        None \<Rightarrow> None
      | Some os \<Rightarrow> readEdges (read depth_Output (p_heap ps)) os)"

text \<open>
  What the types of the source say about a store: a pointer leads to a cell of the store,
  and to one of the kind that the field it is stored in has. A module points to resources
  and output values, a resource to instances, an instance to objects; the table of
  modules points to modules.
\<close>

fun level :: "fields \<Rightarrow> nat" where
  \<comment> \<open>The number of levels of the hierarchy below and including an object of this kind.\<close>
  "level (ModuleFields locals) = depth_Module"
| "level (ResourceFields provider providerKey) = depth_Resource"
| "level InstanceFields = depth_Instance"
| "level (ObjectFields obj) = depth_Object"
| "level (OutputFields out) = depth_Output"

fun kindOK :: "fields \<Rightarrow> edge \<Rightarrow> fields \<Rightarrow> bool" where
  "kindOK (ModuleFields locals) (ResourceEdge addr) (ResourceFields provider providerKey) = True"
| "kindOK (ModuleFields locals) (OutputEdge name) (OutputFields out) = True"
| "kindOK (ResourceFields provider providerKey) (InstanceEdge key) InstanceFields = True"
| "kindOK InstanceFields (GenerationEdge gen) (ObjectFields obj) = True"
| "kindOK parent e child = False"

definition cellOK :: "heap \<Rightarrow> cell \<Rightarrow> bool" where
  "cellOK h c \<longleftrightarrow>
     list_all (\<lambda>x. snd x < length h \<and> kindOK (cell_fields c) (fst x) (cell_fields (h ! snd x)))
       (cell_edges c)"

definition wellTyped :: "PState \<Rightarrow> bool" where
  "wellTyped ps \<longleftrightarrow>
     list_all (cellOK (p_heap ps)) (p_heap ps)
     \<and> list_all (\<lambda>m. snd m < length (p_heap ps)
                    \<and> level (cell_fields (p_heap ps ! snd m)) = depth_Module)
         (p_Modules ps)"

section \<open>Example trees\<close>

definition ex_child :: ModuleInstance where
  "ex_child = [(''child'', NoKey)]"

definition ex_ghost :: ModuleInstance where
  "ex_ghost = [(''ghost'', IntKey 0)]"

definition ex_res :: Resource_addr where
  "ex_res = \<lparr>Mode = ManagedResourceMode, Type = ''null_resource'', Name = ''a''\<rparr>"

definition ex_inst :: "ModuleInstance \<Rightarrow> AbsResourceInstance" where
  "ex_inst m = \<lparr>ari_Module = m, ari_Resource = \<lparr>ri_Resource = ex_res, ri_Key = NoKey\<rparr>\<rparr>"

definition ex_absres :: "ModuleInstance \<Rightarrow> AbsResource" where
  "ex_absres m = \<lparr>ar_Module = m, ar_Resource = ex_res\<rparr>"

definition ex_out :: "ModuleInstance \<Rightarrow> AbsOutputValue" where
  "ex_out m = \<lparr>aov_Module = m, aov_Name = ''x''\<rparr>"

definition ex_obj :: ResourceInstanceObjectSrc where
  "ex_obj = \<lparr>Status = ObjectReady, Payload = ''new'', Dependencies = [], PartialValues = False\<rparr>"

definition ex_old :: ResourceInstanceObjectSrc where
  "ex_old = \<lparr>Status = ObjectTainted, Payload = ''old'', Dependencies = [], PartialValues = False\<rparr>"

definition ex_planned :: ResourceInstanceObjectSrc where
  "ex_planned = \<lparr>Status = ObjectPlanned, Payload = ''soon'', Dependencies = [], PartialValues = True\<rparr>"

definition ex_tree :: "(InstanceKey \<times> ResourceInstance) list \<Rightarrow> State" where
  \<comment> \<open>The empty root module and one child module with one resource, of the given instances.\<close>
  "ex_tree insts =
     \<lparr>Modules =
        [(RootModuleInstance, NewModule),
         (ex_child,
          \<lparr>Resources =
             [(ex_res, \<lparr>Instances = insts, ProviderConfig = ''provider'', ProviderKey = NoKey\<rparr>)],
           OutputValues = [], LocalValues = []\<rparr>)],
      CheckResults = None\<rparr>"

definition ex_new :: State where
  \<comment> \<open>A fresh tree: the empty root module alone.\<close>
  "ex_new = \<lparr>Modules = [(RootModuleInstance, NewModule)], CheckResults = None\<rparr>"

definition ex_dangling :: State where
  \<comment> \<open>The root module and an empty child module, as State.EnsureModule leaves them.\<close>
  "ex_dangling =
     \<lparr>Modules = [(RootModuleInstance, NewModule), (ex_child, NewModule)], CheckResults = None\<rparr>"

definition ex_ops :: "Op list" where
  \<comment> \<open>A run that fills a child module and empties it again.\<close>
  "ex_ops =
     [OpSetOutputValue (ex_out ex_child) ''v'' False [],
      OpSetResourceInstanceCurrent (ex_inst ex_child) (Some ex_planned) ''provider'' NoKey,
      OpRemoveOutputValue (ex_out ex_child),
      OpRemovePlannedResourceInstanceObjects]"

definition ex_heap :: heap where
  \<comment> \<open>The example tree in the store: the child module holds a local value, an output value
      and the resource, whose instance has a current and a deposed object.\<close>
  "ex_heap =
     [Cell (ObjectFields ex_obj) [],
      Cell (ObjectFields ex_old) [],
      Cell InstanceFields
        [(GenerationEdge CurrentGen, 0), (GenerationEdge (DeposedGen ''00000001''), 1)],
      Cell (ResourceFields ''provider'' NoKey) [(InstanceEdge NoKey, 2)],
      Cell (OutputFields \<lparr>Value = ''v'', Sensitive = False, Deprecated = []\<rparr>) [],
      Cell (ModuleFields [(''l'', ''w'')]) [(ResourceEdge ex_res, 3), (OutputEdge ''x'', 4)],
      Cell (ModuleFields []) []]"

definition ex_pstate :: PState where
  "ex_pstate = \<lparr>p_Modules = [(RootModuleInstance, 6), (ex_child, 5)], p_heap = ex_heap\<rparr>"

definition ex_child_snapshot :: snapshot where
  "ex_child_snapshot =
     Snapshot (ModuleFields [(''l'', ''w'')])
       [(ResourceEdge ex_res,
         Snapshot (ResourceFields ''provider'' NoKey)
           [(InstanceEdge NoKey,
             Snapshot InstanceFields
               [(GenerationEdge CurrentGen, Snapshot (ObjectFields ex_obj) []),
                (GenerationEdge (DeposedGen ''00000001''), Snapshot (ObjectFields ex_old) [])])]),
        (OutputEdge ''x'',
         Snapshot (OutputFields \<lparr>Value = ''v'', Sensitive = False, Deprecated = []\<rparr>) [])]"

definition ex_copied_heap :: heap where
  \<comment> \<open>The store after the child module has been copied out.\<close>
  "ex_copied_heap = ex_heap @
     [Cell (ObjectFields ex_obj) [],
      Cell (ObjectFields ex_old) [],
      Cell InstanceFields
        [(GenerationEdge CurrentGen, 7), (GenerationEdge (DeposedGen ''00000001''), 8)],
      Cell (ResourceFields ''provider'' NoKey) [(InstanceEdge NoKey, 9)],
      Cell (OutputFields \<lparr>Value = ''v'', Sensitive = False, Deprecated = []\<rparr>) [],
      Cell (ModuleFields [(''l'', ''w'')]) [(ResourceEdge ex_res, 10), (OutputEdge ''x'', 11)]]"

definition ex_mutated_heap :: heap where
  \<comment> \<open>The caller overwrites the current object of the copy and empties the copy of the
      module.\<close>
  "ex_mutated_heap =
     ex_copied_heap[7 := Cell (ObjectFields ex_planned) [], 12 := Cell (ModuleFields []) []]"

section \<open>Lemmas on the tree\<close>

lemmas ex_defs = ex_child_def ex_ghost_def ex_res_def ex_inst_def ex_absres_def ex_out_def ex_obj_def
  ex_old_def ex_planned_def ex_tree_def ex_new_def ex_dangling_def RootModuleInstance_def
  NewModule_def NotDeposed_def IsRoot_def

lemmas read_defs = SyncState_Module_def SyncState_Resource_def SyncState_ResourceInstance_def
  SyncState_ResourceInstanceObject_def State_Module_def State_Resource_def
  State_ResourceInstance_def Module_Resource_def Module_ResourceInstance_def Resource_Instance_def
  GetGeneration_def

lemma IsRoot_iff: "IsRoot a \<longleftrightarrow> a = RootModuleInstance"
  by (simp add: IsRoot_def RootModuleInstance_def)

lemma delete_update_unused:
  "map_of al k = None \<Longrightarrow> AList.delete k (AList.update k v al) = al"
  by (simp add: AList.delete_update_same map_of_eq_None_iff)

lemma State_putModule_same:
  "State_Module s addr = Some ms \<Longrightarrow> State_putModule addr ms s = s"
  by (simp add: State_Module_def State_putModule_def AList.update_triv)

lemma State_putModule_twice:
  "State_putModule addr ms (State_putModule addr ms' s) = State_putModule addr ms s"
  by (simp add: State_putModule_def)

lemma State_Module_putModule:
  "State_Module (State_putModule addr ms s) a = (if a = addr then Some ms else State_Module s a)"
  by (simp add: State_Module_def State_putModule_def AList.update_conv')

lemma State_Module_RemoveModule:
  "State_Module (State_RemoveModule addr s) a =
     (if a = addr \<and> \<not> IsRoot addr then None else State_Module s a)"
  by (simp add: State_Module_def State_RemoveModule_def AList.delete_conv')

lemma State_Module_maybePruneModule:
  "State_Module (maybePruneModule addr s) a =
     (if a = addr \<and> \<not> IsRoot addr \<and> (\<exists>ms. State_Module s addr = Some ms \<and> Module_empty ms)
      then None else State_Module s a)"
  by (auto simp add: maybePruneModule_def State_Module_RemoveModule split: option.splits)

lemma maybePruneModule_nonempty:
  "State_Module s a = Some ms \<Longrightarrow> IsRoot a \<or> \<not> Module_empty ms \<Longrightarrow> maybePruneModule a s = s"
  by (auto simp add: maybePruneModule_def)

lemma State_EnsureModule_cases:
  "State_EnsureModule addr s =
     (case State_Module s addr of
        None \<Rightarrow> (NewModule, State_putModule addr NewModule s)
      | Some ms \<Rightarrow> (ms, s))"
  by (simp add: State_EnsureModule_def split: option.splits)

lemma putModule_EnsureModule:
  "State_putModule a ms (snd (State_EnsureModule a s)) = State_putModule a ms s"
  by (simp add: State_EnsureModule_cases State_putModule_twice split: option.splits)

lemma State_RemoveModule_untracked:
  "State_Module s a = None \<Longrightarrow> State_RemoveModule a s = s"
  by (simp add: State_RemoveModule_def State_Module_def map_of_eq_None_iff)

lemma State_RemoveModule_putModule_untracked:
  "State_Module s a = None \<Longrightarrow> \<not> IsRoot a \<Longrightarrow> State_RemoveModule a (State_putModule a ms s) = s"
  by (simp add: State_RemoveModule_def State_putModule_def State_Module_def delete_update_unused)

lemma Module_Resource_RemoveResource:
  "Module_Resource (Module_RemoveResource r ms) r' = (if r' = r then None else Module_Resource ms r')"
  by (simp add: Module_Resource_def Module_RemoveResource_def AList.delete_conv')

lemma Module_RemoveResource_untracked:
  "Module_Resource ms r = None \<Longrightarrow> Module_RemoveResource r ms = ms"
  by (simp add: Module_RemoveResource_def Module_Resource_def map_of_eq_None_iff)

lemma Module_putInstance_restore:
  assumes rs: "Module_Resource ms (ri_Resource addr) = Some rs"
    and i: "Resource_Instance rs (ri_Key addr) = Some i"
  shows "Module_putInstance addr
           (rs\<lparr>Instances := AList.update (ri_Key addr) i' (Instances rs)\<rparr>) i
           (Module_putInstance addr rs i' ms) = ms"
  using rs i
  by (simp add: Module_putInstance_def Module_Resource_def Resource_Instance_def AList.update_triv)

lemma Module_Resource_putInstance:
  "Module_Resource (Module_putInstance addr rs i ms) (ri_Resource addr) =
     Some (rs\<lparr>Instances := AList.update (ri_Key addr) i (Instances rs)\<rparr>)"
  by (simp add: Module_Resource_def Module_putInstance_def AList.update_conv')

lemma Module_ResourceInstance_putInstance:
  "Module_ResourceInstance (Module_putInstance addr rs i ms) addr = Some i"
  by (simp add: Module_ResourceInstance_def Module_Resource_putInstance Resource_Instance_def
      AList.update_conv')

lemma not_empty_putInstance: "\<not> Module_empty (Module_putInstance addr rs i ms)"
  by (simp add: Module_empty_def Module_putInstance_def)

lemma ForgetAll_untracked_instance:
  "Module_ResourceInstance ms addr = None \<Longrightarrow> Module_ForgetResourceInstanceAll addr ms = ms"
  by (simp add: Module_ForgetResourceInstanceAll_def Module_ResourceInstance_def
      split: option.splits)

subsection \<open>The allocated deposed key is fresh\<close>

lemma length_le_foldr_max:
  "e \<in> set ds \<Longrightarrow> length (fst e) \<le> foldr max (map (\<lambda>e. length (fst e)) ds) 0"
  by (induction ds) (auto simp add: max_def)

lemma findUnusedDeposedKey_unused: "map_of (Deposed i) (findUnusedDeposedKey i) = None"
proof -
  have "findUnusedDeposedKey i \<notin> fst ` set (Deposed i)"
  proof
    assume "findUnusedDeposedKey i \<in> fst ` set (Deposed i)"
    then obtain e where e: "e \<in> set (Deposed i)" and k: "fst e = findUnusedDeposedKey i"
      by auto
    from length_le_foldr_max [OF e] k show False
      by (simp add: findUnusedDeposedKey_def)
  qed
  then show ?thesis
    by (simp add: map_of_eq_None_iff)
qed

lemma findUnusedDeposedKey_not_sentinel: "findUnusedDeposedKey i \<noteq> NotDeposed"
  by (simp add: findUnusedDeposedKey_def NotDeposed_def)


section \<open>Misuse of the sentinel key\<close>

text \<open>
  Claim C7. For every tree and address, DeposeResourceInstanceObjectForceKey with the
  NotDeposed sentinel as the forced key, and MaybeRestoreResourceInstanceDeposed with the
  NotDeposed sentinel as the key, panic; the tree at the panic is the tree before the
  call, so nothing has been modified.
\<close>

theorem sentinel_key_panics:
  "SyncState_DeposeResourceInstanceObjectForceKey addr NotDeposed s =
     Inl (Panic ''DeposeResourceInstanceObjectForceKey called without forced key'', s)
   \<and> SyncState_MaybeRestoreResourceInstanceDeposed addr NotDeposed s =
     Inl (Panic ''MaybeRestoreResourceInstanceDeposed called without DeposedKey'', s)"
  by (simp add: SyncState_DeposeResourceInstanceObjectForceKey_def
      SyncState_MaybeRestoreResourceInstanceDeposed_def)

text \<open>
  The sentinel is rejected also where the instance has a current object and deposed
  objects, on which a real key would act.
\<close>

theorem sentinel_key_panics_witness:
  "SyncState_DeposeResourceInstanceObjectForceKey (ex_inst ex_child) NotDeposed
     (ex_tree [(NoKey, \<lparr>Current = Some ex_obj, Deposed = [(''00000001'', ex_old)]\<rparr>)]) =
     Inl (Panic ''DeposeResourceInstanceObjectForceKey called without forced key'',
          ex_tree [(NoKey, \<lparr>Current = Some ex_obj, Deposed = [(''00000001'', ex_old)]\<rparr>)])
   \<and> SyncState_MaybeRestoreResourceInstanceDeposed (ex_inst ex_child) NotDeposed
     (ex_tree [(NoKey, \<lparr>Current = Some ex_obj, Deposed = [(''00000001'', ex_old)]\<rparr>)]) =
     Inl (Panic ''MaybeRestoreResourceInstanceDeposed called without DeposedKey'',
          ex_tree [(NoKey, \<lparr>Current = Some ex_obj, Deposed = [(''00000001'', ex_old)]\<rparr>)])"
  by (rule sentinel_key_panics)

section \<open>A forced key in an untracked module\<close>

text \<open>
  Claim C10. For every tree and every forced key other than the sentinel,
  DeposeResourceInstanceObjectForceKey for an address whose module is not tracked
  returns without a panic and leaves the tree as it was: the absence of the module is
  found before the forced key is compared with the keys in use.
\<close>

theorem force_key_untracked_module:
  "forcedKey \<noteq> NotDeposed \<Longrightarrow> SyncState_Module (ari_Module addr) s = None
     \<Longrightarrow> SyncState_DeposeResourceInstanceObjectForceKey addr forcedKey s = Inr s"
  by (simp add: SyncState_DeposeResourceInstanceObjectForceKey_def SyncState_Module_def)

theorem force_key_untracked_module_witness:
  "''00000001'' \<noteq> NotDeposed
   \<and> SyncState_Module (ari_Module (ex_inst ex_ghost))
       (ex_tree [(NoKey, \<lparr>Current = Some ex_obj, Deposed = [(''00000001'', ex_old)]\<rparr>)]) = None
   \<and> SyncState_DeposeResourceInstanceObjectForceKey (ex_inst ex_ghost) ''00000001''
       (ex_tree [(NoKey, \<lparr>Current = Some ex_obj, Deposed = [(''00000001'', ex_old)]\<rparr>)]) =
      Inr (ex_tree [(NoKey, \<lparr>Current = Some ex_obj, Deposed = [(''00000001'', ex_old)]\<rparr>)])"
proof -
  have k: "''00000001'' \<noteq> NotDeposed"
    by (simp add: NotDeposed_def)
  have m: "SyncState_Module (ari_Module (ex_inst ex_ghost))
       (ex_tree [(NoKey, \<lparr>Current = Some ex_obj, Deposed = [(''00000001'', ex_old)]\<rparr>)]) = None"
    by (simp add: ex_defs read_defs)
  from k m force_key_untracked_module [OF k m] show ?thesis
    by simp
qed

section \<open>RemoveResourceIfEmpty\<close>

text \<open>
  Claim C3. For every tree and resource address, RemoveResourceIfEmpty returns true
  exactly when the resource is absent afterwards. A resource that was already absent
  (its module or the resource itself untracked) gives true, with the tree as it was; a
  resource with one or more instances gives false, with the tree as it was; a resource
  with no instance gives true and is removed, its module is pruned if that left it empty
  and it is not the root, and no other module changes.
\<close>

theorem RemoveResourceIfEmpty_result:
  "(fst (SyncState_RemoveResourceIfEmpty addr s)
      \<longleftrightarrow> SyncState_Resource addr (snd (SyncState_RemoveResourceIfEmpty addr s)) = None)
   \<and> (SyncState_Resource addr s = None \<longrightarrow> SyncState_RemoveResourceIfEmpty addr s = (True, s))
   \<and> (\<forall>rs. SyncState_Resource addr s = Some rs \<and> length (Instances rs) \<noteq> 0
          \<longrightarrow> SyncState_RemoveResourceIfEmpty addr s = (False, s))
   \<and> (\<forall>rs ms. SyncState_Resource addr s = Some rs \<and> length (Instances rs) = 0
           \<and> SyncState_Module (ar_Module addr) s = Some ms
          \<longrightarrow> fst (SyncState_RemoveResourceIfEmpty addr s)
              \<and> SyncState_Module (ar_Module addr) (snd (SyncState_RemoveResourceIfEmpty addr s)) =
                  (if \<not> IsRoot (ar_Module addr)
                      \<and> Module_empty (Module_RemoveResource (ar_Resource addr) ms)
                   then None else Some (Module_RemoveResource (ar_Resource addr) ms))
              \<and> (\<forall>a. a \<noteq> ar_Module addr \<longrightarrow>
                    SyncState_Module a (snd (SyncState_RemoveResourceIfEmpty addr s)) =
                    SyncState_Module a s))"
  by (auto simp add: SyncState_RemoveResourceIfEmpty_def SyncState_Resource_def
      SyncState_Module_def State_Resource_def State_Module_maybePruneModule
      State_Module_putModule Module_Resource_RemoveResource split: option.splits)

text \<open>
  The three cases on the example tree: an untracked module, a resource with one instance
  that holds only a deposed object, and a resource without instances, whose removal
  empties the child module.
\<close>

theorem RemoveResourceIfEmpty_result_witness:
  "SyncState_RemoveResourceIfEmpty (ex_absres ex_ghost) (ex_tree []) = (True, ex_tree [])
   \<and> SyncState_RemoveResourceIfEmpty (ex_absres ex_child)
       (ex_tree [(NoKey, \<lparr>Current = None, Deposed = [(''00000001'', ex_old)]\<rparr>)]) =
      (False, ex_tree [(NoKey, \<lparr>Current = None, Deposed = [(''00000001'', ex_old)]\<rparr>)])
   \<and> fst (SyncState_RemoveResourceIfEmpty (ex_absres ex_child) (ex_tree []))
   \<and> SyncState_Resource (ex_absres ex_child)
       (snd (SyncState_RemoveResourceIfEmpty (ex_absres ex_child) (ex_tree []))) = None
   \<and> SyncState_Module ex_child
       (snd (SyncState_RemoveResourceIfEmpty (ex_absres ex_child) (ex_tree []))) = None
   \<and> SyncState_Module RootModuleInstance
       (snd (SyncState_RemoveResourceIfEmpty (ex_absres ex_child) (ex_tree []))) = Some NewModule"
  using RemoveResourceIfEmpty_result [of "ex_absres ex_ghost" "ex_tree []"]
    RemoveResourceIfEmpty_result [of "ex_absres ex_child"
      "ex_tree [(NoKey, \<lparr>Current = None, Deposed = [(''00000001'', ex_old)]\<rparr>)]"]
    RemoveResourceIfEmpty_result [of "ex_absres ex_child" "ex_tree []"]
  by (simp add: ex_defs read_defs Module_empty_def Module_RemoveResource_def)


section \<open>Deposing where there is no current object\<close>

text \<open>
  Claim C5. For every tree and resource instance address at which there is no current
  object (the module, the resource or the instance may be untracked, or the instance may
  hold deposed objects only), DeposeResourceInstanceObject returns the NotDeposed
  sentinel and leaves the tree as it was.
\<close>

theorem depose_nothing_is_benign:
  "SyncState_ResourceInstanceObject addr CurrentGen s = None
     \<Longrightarrow> SyncState_DeposeResourceInstanceObject addr s = Inr (NotDeposed, s)"
  by (auto simp add: SyncState_ResourceInstanceObject_def SyncState_DeposeResourceInstanceObject_def
      State_ResourceInstance_def Module_ResourceInstance_def GetGeneration_def
      Module_deposeResourceInstanceObject_def State_putModule_same split: option.splits)

theorem depose_nothing_is_benign_witness:
  "SyncState_ResourceInstanceObject (ex_inst ex_child) CurrentGen
     (ex_tree [(NoKey, \<lparr>Current = None, Deposed = [(''00000001'', ex_old)]\<rparr>)]) = None
   \<and> SyncState_DeposeResourceInstanceObject (ex_inst ex_child)
       (ex_tree [(NoKey, \<lparr>Current = None, Deposed = [(''00000001'', ex_old)]\<rparr>)]) =
      Inr (NotDeposed, ex_tree [(NoKey, \<lparr>Current = None, Deposed = [(''00000001'', ex_old)]\<rparr>)])"
proof -
  have h: "SyncState_ResourceInstanceObject (ex_inst ex_child) CurrentGen
     (ex_tree [(NoKey, \<lparr>Current = None, Deposed = [(''00000001'', ex_old)]\<rparr>)]) = None"
    by (simp add: ex_defs read_defs)
  from h depose_nothing_is_benign [OF h] show ?thesis
    by simp
qed

section \<open>A deposed write needs a tracked resource\<close>

text \<open>
  Claim C8. For every tree, SetResourceInstanceDeposed for a resource address that has no
  resource record in the tree panics. It does not return normally and it does not create
  the resource: in the tree at the panic the resource is still untracked (the containing
  module has been ensured by then).
\<close>

theorem SetResourceInstanceDeposed_untracked_resource:
  "SyncState_Resource
     \<lparr>ar_Module = ari_Module addr, ar_Resource = ri_Resource (ari_Resource addr)\<rparr> s = None
   \<Longrightarrow> SyncState_SetResourceInstanceDeposed addr key obj provider providerKey s =
         Inl (Panic ''SetResourceInstanceDeposed: resource is not tracked'',
              snd (State_EnsureModule (ari_Module addr) s))
       \<and> SyncState_Resource
           \<lparr>ar_Module = ari_Module addr, ar_Resource = ri_Resource (ari_Resource addr)\<rparr>
           (snd (State_EnsureModule (ari_Module addr) s)) = None"
proof (cases "State_Module s (ari_Module addr)")
  case None
  then show ?thesis
    by (simp add: SyncState_Resource_def SyncState_SetResourceInstanceDeposed_def
        State_Resource_def State_EnsureModule_cases State_Module_putModule
        Module_SetResourceInstanceDeposed_def Module_Resource_def NewModule_def)
next
  case (Some ms)
  assume "SyncState_Resource
     \<lparr>ar_Module = ari_Module addr, ar_Resource = ri_Resource (ari_Resource addr)\<rparr> s = None"
  with Some show ?thesis
    by (simp add: SyncState_Resource_def SyncState_SetResourceInstanceDeposed_def
        State_Resource_def State_EnsureModule_cases Module_SetResourceInstanceDeposed_def)
qed

theorem SetResourceInstanceDeposed_untracked_resource_witness:
  "SyncState_Resource
     \<lparr>ar_Module = ari_Module (ex_inst RootModuleInstance),
      ar_Resource = ri_Resource (ari_Resource (ex_inst RootModuleInstance))\<rparr> (ex_tree []) = None
   \<and> SyncState_SetResourceInstanceDeposed (ex_inst RootModuleInstance) ''00000001'' (Some ex_old)
       ''provider'' NoKey (ex_tree []) =
      Inl (Panic ''SetResourceInstanceDeposed: resource is not tracked'', ex_tree [])"
proof -
  have h: "SyncState_Resource
     \<lparr>ar_Module = ari_Module (ex_inst RootModuleInstance),
      ar_Resource = ri_Resource (ari_Resource (ex_inst RootModuleInstance))\<rparr> (ex_tree []) = None"
    by (simp add: ex_defs read_defs)
  have e: "snd (State_EnsureModule (ari_Module (ex_inst RootModuleInstance)) (ex_tree [])) =
      ex_tree []"
    by (simp add: State_EnsureModule_def ex_defs read_defs)
  from h e SetResourceInstanceDeposed_untracked_resource
    [OF h, of "''00000001''" "Some ex_old" "''provider''" NoKey]
  show ?thesis
    by simp
qed

section \<open>Restoring a deposed object\<close>

lemma restore_with_current:
  "SyncState_ResourceInstanceObject addr CurrentGen s \<noteq> None \<Longrightarrow> key \<noteq> NotDeposed
     \<Longrightarrow> SyncState_MaybeRestoreResourceInstanceDeposed addr key s = Inr (False, s)"
  by (auto simp add: SyncState_ResourceInstanceObject_def
      SyncState_MaybeRestoreResourceInstanceDeposed_def State_ResourceInstance_def
      Module_ResourceInstance_def GetGeneration_def Module_maybeRestoreResourceInstanceDeposed_def
      State_putModule_same split: option.splits)

lemma restore_True:
  assumes "SyncState_MaybeRestoreResourceInstanceDeposed addr key s = Inr (True, s')"
  shows "SyncState_ResourceInstanceObject addr CurrentGen s = None
       \<and> SyncState_ResourceInstanceObject addr (DeposedGen key) s \<noteq> None
       \<and> SyncState_ResourceInstanceObject addr CurrentGen s' =
           SyncState_ResourceInstanceObject addr (DeposedGen key) s
       \<and> SyncState_ResourceInstanceObject addr (DeposedGen key) s' = None"
  using assms
  by (auto simp add: SyncState_ResourceInstanceObject_def
      SyncState_MaybeRestoreResourceInstanceDeposed_def State_ResourceInstance_def
      Module_ResourceInstance_def GetGeneration_def Module_maybeRestoreResourceInstanceDeposed_def
      State_Module_putModule Module_Resource_putInstance
      Resource_Instance_def AList.update_conv' AList.delete_conv'
      split: option.splits if_splits)

lemma restore_without_current:
  assumes "key \<noteq> NotDeposed"
    and "SyncState_ResourceInstanceObject addr CurrentGen s = None"
    and "SyncState_ResourceInstanceObject addr (DeposedGen key) s \<noteq> None"
  shows "\<exists>s'. SyncState_MaybeRestoreResourceInstanceDeposed addr key s = Inr (True, s')"
  using assms
  by (auto simp add: SyncState_ResourceInstanceObject_def
      SyncState_MaybeRestoreResourceInstanceDeposed_def State_ResourceInstance_def
      Module_ResourceInstance_def GetGeneration_def Module_maybeRestoreResourceInstanceDeposed_def
      split: option.splits)

text \<open>
  Claim C2. For every tree and every deposed key other than the sentinel: if the
  instance has a current object, MaybeRestoreResourceInstanceDeposed returns false and
  the tree is as it was, so the current object is unchanged and the deposed object is
  still deposed under its key. If it returns true, then there was no current object,
  there was a deposed object under the key, that object is the current one afterwards
  and the key is no longer in use. Where there is no current object and the key names a
  deposed object, it does return true.
\<close>

theorem restore_is_non_destructive:
  assumes "key \<noteq> NotDeposed"
  shows "(SyncState_ResourceInstanceObject addr CurrentGen s \<noteq> None
            \<longrightarrow> SyncState_MaybeRestoreResourceInstanceDeposed addr key s = Inr (False, s))
       \<and> (\<forall>s'. SyncState_MaybeRestoreResourceInstanceDeposed addr key s = Inr (True, s')
            \<longrightarrow> SyncState_ResourceInstanceObject addr CurrentGen s = None
              \<and> SyncState_ResourceInstanceObject addr (DeposedGen key) s \<noteq> None
              \<and> SyncState_ResourceInstanceObject addr CurrentGen s' =
                  SyncState_ResourceInstanceObject addr (DeposedGen key) s
              \<and> SyncState_ResourceInstanceObject addr (DeposedGen key) s' = None)
       \<and> (SyncState_ResourceInstanceObject addr CurrentGen s = None
            \<and> SyncState_ResourceInstanceObject addr (DeposedGen key) s \<noteq> None
            \<longrightarrow> (\<exists>s'. SyncState_MaybeRestoreResourceInstanceDeposed addr key s = Inr (True, s')))"
  using assms restore_with_current [of addr s key] restore_True [of addr key s]
    restore_without_current [of key addr s]
  by blast

text \<open>
  On the example tree: with a current object the call changes nothing; without one the
  deposed object becomes the current one.
\<close>

theorem restore_is_non_destructive_witness:
  "''00000001'' \<noteq> NotDeposed
   \<and> SyncState_MaybeRestoreResourceInstanceDeposed (ex_inst ex_child) ''00000001''
       (ex_tree [(NoKey, \<lparr>Current = Some ex_obj, Deposed = [(''00000001'', ex_old)]\<rparr>)]) =
      Inr (False, ex_tree [(NoKey, \<lparr>Current = Some ex_obj, Deposed = [(''00000001'', ex_old)]\<rparr>)])
   \<and> SyncState_MaybeRestoreResourceInstanceDeposed (ex_inst ex_child) ''00000001''
       (ex_tree [(NoKey, \<lparr>Current = None, Deposed = [(''00000001'', ex_old)]\<rparr>)]) =
      Inr (True, ex_tree [(NoKey, \<lparr>Current = Some ex_old, Deposed = []\<rparr>)])
   \<and> SyncState_ResourceInstanceObject (ex_inst ex_child) CurrentGen
       (ex_tree [(NoKey, \<lparr>Current = Some ex_old, Deposed = []\<rparr>)]) =
      SyncState_ResourceInstanceObject (ex_inst ex_child) (DeposedGen ''00000001'')
       (ex_tree [(NoKey, \<lparr>Current = None, Deposed = [(''00000001'', ex_old)]\<rparr>)])"
proof -
  let ?both = "ex_tree [(NoKey, \<lparr>Current = Some ex_obj, Deposed = [(''00000001'', ex_old)]\<rparr>)]"
  let ?dep = "ex_tree [(NoKey, \<lparr>Current = None, Deposed = [(''00000001'', ex_old)]\<rparr>)]"
  let ?cur = "ex_tree [(NoKey, \<lparr>Current = Some ex_old, Deposed = []\<rparr>)]"
  have k: "''00000001'' \<noteq> NotDeposed"
    by (simp add: NotDeposed_def)
  have c: "SyncState_ResourceInstanceObject (ex_inst ex_child) CurrentGen ?both \<noteq> None"
    by (simp add: ex_defs read_defs)
  have r: "SyncState_MaybeRestoreResourceInstanceDeposed (ex_inst ex_child) ''00000001'' ?dep =
      Inr (True, ?cur)"
    by (simp add: ex_defs read_defs SyncState_MaybeRestoreResourceInstanceDeposed_def
        Module_maybeRestoreResourceInstanceDeposed_def Module_putInstance_def State_putModule_def)
  from restore_is_non_destructive [OF k, of "ex_inst ex_child" ?both] c
  have 1: "SyncState_MaybeRestoreResourceInstanceDeposed (ex_inst ex_child) ''00000001'' ?both =
      Inr (False, ?both)"
    by blast
  from restore_is_non_destructive [OF k, of "ex_inst ex_child" ?dep] r
  have 2: "SyncState_ResourceInstanceObject (ex_inst ex_child) CurrentGen ?cur =
      SyncState_ResourceInstanceObject (ex_inst ex_child) (DeposedGen ''00000001'') ?dep"
    by blast
  from k 1 r 2 show ?thesis
    by blast
qed

section \<open>Deposing and restoring at once\<close>

lemma depose_Some:
  assumes ms: "Module_Resource ms (ri_Resource addr) = Some rs"
    and i: "Resource_Instance rs (ri_Key addr) = Some i"
    and cur: "Current i = Some cur"
  shows "Module_deposeResourceInstanceObject addr NotDeposed ms =
           Inr (findUnusedDeposedKey i,
                Module_putInstance addr rs
                  (i\<lparr>Current := None,
                     Deposed := AList.update (findUnusedDeposedKey i) cur (Deposed i)\<rparr>) ms)"
  using ms i cur by (simp add: Module_deposeResourceInstanceObject_def Let_def)

lemma restore_after_depose:
  assumes rs: "Module_Resource ms (ri_Resource addr) = Some rs"
    and i: "Resource_Instance rs (ri_Key addr) = Some i"
    and cur: "Current i = Some cur"
    and k: "map_of (Deposed i) k = None"
  shows "Module_maybeRestoreResourceInstanceDeposed addr k
           (Module_putInstance addr rs
              (i\<lparr>Current := None, Deposed := AList.update k cur (Deposed i)\<rparr>) ms)
         = (True, ms)"
proof -
  have "i\<lparr>Current := Some cur, Deposed := Deposed i\<rparr> = i"
    using cur by simp
  with k show ?thesis
    by (simp add: Module_maybeRestoreResourceInstanceDeposed_def Module_Resource_putInstance
        Resource_Instance_def AList.update_conv' delete_update_unused
        Module_putInstance_restore [OF rs i])
qed

text \<open>
  Claim C4, as amended. For every tree in which a resource instance has a current
  object, DeposeResourceInstanceObject returns a key other than the sentinel, after
  which the instance has no current object and the object is deposed under that key; and
  MaybeRestoreResourceInstanceDeposed with that key returns true and gives back exactly
  the tree before the two calls. So the original object is current again, and the
  deposed objects of the instance are those it had before: none if it had none.
\<close>

theorem depose_then_restore:
  assumes "SyncState_ResourceInstanceObject addr CurrentGen s = Some cur"
  shows "\<exists>key s1. SyncState_DeposeResourceInstanceObject addr s = Inr (key, s1)
           \<and> key \<noteq> NotDeposed
           \<and> SyncState_ResourceInstanceObject addr CurrentGen s1 = None
           \<and> SyncState_ResourceInstanceObject addr (DeposedGen key) s1 = Some cur
           \<and> SyncState_MaybeRestoreResourceInstanceDeposed addr key s1 = Inr (True, s)"
proof -
  from assms obtain ms rs i where
    ms: "State_Module s (ari_Module addr) = Some ms" and
    rs: "Module_Resource ms (ri_Resource (ari_Resource addr)) = Some rs" and
    i: "Resource_Instance rs (ri_Key (ari_Resource addr)) = Some i" and
    cur: "Current i = Some cur"
    by (auto simp add: SyncState_ResourceInstanceObject_def State_ResourceInstance_def
        Module_ResourceInstance_def GetGeneration_def split: option.splits)
  let ?k = "findUnusedDeposedKey i"
  let ?i1 = "i\<lparr>Current := None, Deposed := AList.update ?k cur (Deposed i)\<rparr>"
  let ?ms1 = "Module_putInstance (ari_Resource addr) rs ?i1 ms"
  let ?s1 = "State_putModule (ari_Module addr) ?ms1 s"
  have d: "SyncState_DeposeResourceInstanceObject addr s = Inr (?k, ?s1)"
    using ms by (simp add: SyncState_DeposeResourceInstanceObject_def depose_Some [OF rs i cur])
  have k: "?k \<noteq> NotDeposed"
    by (rule findUnusedDeposedKey_not_sentinel)
  have inst1: "State_ResourceInstance ?s1 addr = Some ?i1"
    by (simp add: State_ResourceInstance_def State_Module_putModule
        Module_ResourceInstance_putInstance)
  have c1: "SyncState_ResourceInstanceObject addr CurrentGen ?s1 = None"
    by (simp add: SyncState_ResourceInstanceObject_def inst1 GetGeneration_def)
  have d1: "SyncState_ResourceInstanceObject addr (DeposedGen ?k) ?s1 = Some cur"
    by (simp add: SyncState_ResourceInstanceObject_def inst1 GetGeneration_def AList.update_conv')
  have r: "SyncState_MaybeRestoreResourceInstanceDeposed addr ?k ?s1 = Inr (True, s)"
    using k
    by (simp add: SyncState_MaybeRestoreResourceInstanceDeposed_def State_Module_putModule
        restore_after_depose [OF rs i cur findUnusedDeposedKey_unused]
        State_putModule_twice State_putModule_same [OF ms])
  from d k c1 d1 r show ?thesis by blast
qed

theorem depose_then_restore_witness:
  "SyncState_ResourceInstanceObject (ex_inst ex_child) CurrentGen
     (ex_tree [(NoKey, \<lparr>Current = Some ex_obj, Deposed = []\<rparr>)]) = Some ex_obj
   \<and> (\<exists>key s1.
        SyncState_DeposeResourceInstanceObject (ex_inst ex_child)
          (ex_tree [(NoKey, \<lparr>Current = Some ex_obj, Deposed = []\<rparr>)]) = Inr (key, s1)
        \<and> key \<noteq> NotDeposed
        \<and> SyncState_ResourceInstanceObject (ex_inst ex_child) CurrentGen s1 = None
        \<and> SyncState_ResourceInstanceObject (ex_inst ex_child) (DeposedGen key) s1 = Some ex_obj
        \<and> SyncState_MaybeRestoreResourceInstanceDeposed (ex_inst ex_child) key s1 =
            Inr (True, ex_tree [(NoKey, \<lparr>Current = Some ex_obj, Deposed = []\<rparr>)]))"
proof -
  have h: "SyncState_ResourceInstanceObject (ex_inst ex_child) CurrentGen
     (ex_tree [(NoKey, \<lparr>Current = Some ex_obj, Deposed = []\<rparr>)]) = Some ex_obj"
    by (simp add: ex_defs read_defs)
  from h depose_then_restore [OF h] show ?thesis
    by simp
qed

text \<open>
  The claim as stated asks for zero deposed objects after the round trip in every tree.
  An instance that holds a current object and one deposed object has that deposed object
  afterwards as before: the first call allocates a second key, the second call frees it
  again, and the tree is the one the calls started from.
\<close>

theorem zero_deposed_counterexample:
  "SyncState_ResourceInstanceObject (ex_inst ex_child) CurrentGen
     (ex_tree [(NoKey, \<lparr>Current = Some ex_obj, Deposed = [(''00000001'', ex_old)]\<rparr>)]) = Some ex_obj
   \<and> SyncState_DeposeResourceInstanceObject (ex_inst ex_child)
       (ex_tree [(NoKey, \<lparr>Current = Some ex_obj, Deposed = [(''00000001'', ex_old)]\<rparr>)]) =
      Inr (''000000000'',
           ex_tree [(NoKey, \<lparr>Current = None,
                             Deposed = [(''00000001'', ex_old), (''000000000'', ex_obj)]\<rparr>)])
   \<and> SyncState_MaybeRestoreResourceInstanceDeposed (ex_inst ex_child) ''000000000''
       (ex_tree [(NoKey, \<lparr>Current = None,
                         Deposed = [(''00000001'', ex_old), (''000000000'', ex_obj)]\<rparr>)]) =
      Inr (True, ex_tree [(NoKey, \<lparr>Current = Some ex_obj, Deposed = [(''00000001'', ex_old)]\<rparr>)])
   \<and> SyncState_ResourceInstance (ex_inst ex_child)
       (ex_tree [(NoKey, \<lparr>Current = Some ex_obj, Deposed = [(''00000001'', ex_old)]\<rparr>)]) =
      Some \<lparr>Current = Some ex_obj, Deposed = [(''00000001'', ex_old)]\<rparr>
   \<and> length (Deposed \<lparr>Current = Some ex_obj, Deposed = [(''00000001'', ex_old)]\<rparr>) = 1"
  by (simp add: ex_defs read_defs SyncState_DeposeResourceInstanceObject_def
      Module_deposeResourceInstanceObject_def findUnusedDeposedKey_def Module_putInstance_def
      State_putModule_def SyncState_MaybeRestoreResourceInstanceDeposed_def
      Module_maybeRestoreResourceInstanceDeposed_def Let_def)


section \<open>The pruning invariant\<close>

lemma emptyNonRootModules_iff:
  "a \<in> set (emptyNonRootModules s) \<longleftrightarrow>
     \<not> IsRoot a \<and> (\<exists>ms. State_Module s a = Some ms \<and> Module_empty ms)"
  by (auto simp add: emptyNonRootModules_def State_Module_def dest: map_of_SomeD
      split: option.splits intro: rev_image_eqI)

lemma PruningInvariant_iff:
  "PruningInvariant s \<longleftrightarrow>
     State_Module s RootModuleInstance \<noteq> None
     \<and> (\<forall>a ms. State_Module s a = Some ms \<longrightarrow> IsRoot a \<or> \<not> Module_empty ms)"
proof -
  have "emptyNonRootModules s = [] \<longleftrightarrow> (\<forall>a. a \<notin> set (emptyNonRootModules s))"
    by (cases "emptyNonRootModules s") auto
  then show ?thesis
    unfolding PruningInvariant_def emptyNonRootModules_iff by blast
qed

lemma inv_putModule:
  "PruningInvariant s \<Longrightarrow> IsRoot a \<or> \<not> Module_empty ms \<Longrightarrow> PruningInvariant (State_putModule a ms s)"
  by (auto simp add: PruningInvariant_iff State_Module_putModule IsRoot_iff)

lemma inv_prune_put:
  "PruningInvariant s \<Longrightarrow> PruningInvariant (maybePruneModule a (State_putModule a ms s))"
  by (auto simp add: PruningInvariant_iff State_Module_maybePruneModule State_Module_putModule
      IsRoot_iff)

lemma inv_RemoveModule:
  "PruningInvariant s \<Longrightarrow> PruningInvariant (State_RemoveModule a s)"
  by (auto simp add: PruningInvariant_iff State_Module_RemoveModule IsRoot_iff)

lemma inv_CheckResults:
  "PruningInvariant s \<Longrightarrow> PruningInvariant (s\<lparr>CheckResults := c\<rparr>)"
  by (simp add: PruningInvariant_def emptyNonRootModules_def State_Module_def)

lemma inv_put_same_or_nonempty:
  "PruningInvariant s \<Longrightarrow> State_Module s a = Some ms \<Longrightarrow> ms' = ms \<or> \<not> Module_empty ms'
     \<Longrightarrow> PruningInvariant (State_putModule a ms' s)"
  by (auto simp add: State_putModule_same inv_putModule)

lemma inv_fold:
  "(\<And>x s. P s \<Longrightarrow> P (f x s)) \<Longrightarrow> P s \<Longrightarrow> P (fold f xs s)"
  by (induction xs arbitrary: s) auto

lemma inv_SetOutputValue:
  "PruningInvariant s \<Longrightarrow> PruningInvariant (SyncState_SetOutputValue addr v sens dep s)"
  by (simp add: SyncState_SetOutputValue_def split_def putModule_EnsureModule inv_putModule
      Module_empty_def Module_SetOutputValue_def)

lemma inv_SetLocalValue:
  "PruningInvariant s \<Longrightarrow> PruningInvariant (SyncState_SetLocalValue addr v s)"
  by (simp add: SyncState_SetLocalValue_def split_def putModule_EnsureModule inv_putModule
      Module_empty_def Module_SetLocalValue_def)

lemma inv_SetResourceProvider:
  "PruningInvariant s \<Longrightarrow> PruningInvariant (SyncState_SetResourceProvider addr p s)"
  by (simp add: SyncState_SetResourceProvider_def split_def putModule_EnsureModule inv_putModule
      Module_empty_def Module_SetResourceProvider_def split: option.splits)

lemma inv_RemoveOutputValue:
  "PruningInvariant s \<Longrightarrow> PruningInvariant (SyncState_RemoveOutputValue addr s)"
  by (simp add: SyncState_RemoveOutputValue_def inv_prune_put split: option.splits)

lemma inv_RemoveLocalValue:
  "PruningInvariant s \<Longrightarrow> PruningInvariant (SyncState_RemoveLocalValue addr s)"
  by (simp add: SyncState_RemoveLocalValue_def inv_prune_put split: option.splits)

lemma inv_RemoveResource:
  "PruningInvariant s \<Longrightarrow> PruningInvariant (SyncState_RemoveResource addr s)"
  by (simp add: SyncState_RemoveResource_def split_def putModule_EnsureModule inv_prune_put)

lemma inv_RemoveResourceIfEmpty:
  "PruningInvariant s \<Longrightarrow> PruningInvariant (snd (SyncState_RemoveResourceIfEmpty addr s))"
  by (simp add: SyncState_RemoveResourceIfEmpty_def inv_prune_put split: option.splits)

lemma inv_SetResourceInstanceCurrent:
  "PruningInvariant s \<Longrightarrow> PruningInvariant (SyncState_SetResourceInstanceCurrent addr obj p k s)"
  by (simp add: SyncState_SetResourceInstanceCurrent_def split_def putModule_EnsureModule
      inv_prune_put)

lemma inv_SetResourceInstanceDeposed:
  "PruningInvariant s \<Longrightarrow> SyncState_SetResourceInstanceDeposed addr key obj p k s = Inr s'
     \<Longrightarrow> PruningInvariant s'"
  by (auto simp add: SyncState_SetResourceInstanceDeposed_def split_def putModule_EnsureModule
      inv_prune_put split: sum.splits)

lemma inv_ForgetResourceInstanceAll:
  "PruningInvariant s \<Longrightarrow> PruningInvariant (SyncState_ForgetResourceInstanceAll addr s)"
  by (simp add: SyncState_ForgetResourceInstanceAll_def inv_prune_put split: option.splits)

lemma inv_ForgetResourceInstanceDeposed:
  "PruningInvariant s \<Longrightarrow> PruningInvariant (SyncState_ForgetResourceInstanceDeposed addr key s)"
  by (simp add: SyncState_ForgetResourceInstanceDeposed_def inv_prune_put split: option.splits)

lemma depose_module_cases:
  "Module_deposeResourceInstanceObject addr fk ms = Inr (key, ms')
     \<Longrightarrow> ms' = ms \<or> \<not> Module_empty ms'"
  by (auto simp add: Module_deposeResourceInstanceObject_def Let_def not_empty_putInstance
      split: option.splits if_splits)

lemma restore_module_cases:
  "Module_maybeRestoreResourceInstanceDeposed addr key ms = (b, ms')
     \<Longrightarrow> ms' = ms \<or> \<not> Module_empty ms'"
  by (auto simp add: Module_maybeRestoreResourceInstanceDeposed_def not_empty_putInstance
      split: option.splits if_splits)

lemma inv_Depose:
  "PruningInvariant s \<Longrightarrow> SyncState_DeposeResourceInstanceObject addr s = Inr (key, s')
     \<Longrightarrow> PruningInvariant s'"
  by (auto simp add: SyncState_DeposeResourceInstanceObject_def
      split: option.splits sum.splits dest!: depose_module_cases intro: inv_put_same_or_nonempty)

lemma inv_DeposeForceKey:
  "PruningInvariant s \<Longrightarrow> SyncState_DeposeResourceInstanceObjectForceKey addr fk s = Inr s'
     \<Longrightarrow> PruningInvariant s'"
  by (auto simp add: SyncState_DeposeResourceInstanceObjectForceKey_def
      split: option.splits sum.splits if_splits dest!: depose_module_cases
      intro: inv_put_same_or_nonempty)

lemma inv_MaybeRestore:
  "PruningInvariant s \<Longrightarrow> SyncState_MaybeRestoreResourceInstanceDeposed addr key s = Inr (b, s')
     \<Longrightarrow> PruningInvariant s'"
  by (auto simp add: SyncState_MaybeRestoreResourceInstanceDeposed_def
      split: option.splits prod.splits if_splits dest!: restore_module_cases
      intro: inv_put_same_or_nonempty)

lemma inv_RemovePlanned:
  "PruningInvariant s \<Longrightarrow> PruningInvariant (SyncState_RemovePlannedResourceInstanceObjects s)"
  unfolding SyncState_RemovePlannedResourceInstanceObjects_def
  by (rule inv_fold) (auto simp add: RemovePlanned_module_def inv_prune_put)

lemma inv_apply_op:
  "PruningInvariant s \<Longrightarrow> apply_op op s = Inr s' \<Longrightarrow> PruningInvariant s'"
proof (cases op)
  case (OpDeposeResourceInstanceObject addr)
  assume "PruningInvariant s" "apply_op op s = Inr s'"
  with OpDeposeResourceInstanceObject show ?thesis
    by (cases "SyncState_DeposeResourceInstanceObject addr s") (auto dest: inv_Depose)
next
  case (OpMaybeRestoreResourceInstanceDeposed addr key)
  assume "PruningInvariant s" "apply_op op s = Inr s'"
  with OpMaybeRestoreResourceInstanceDeposed show ?thesis
    by (cases "SyncState_MaybeRestoreResourceInstanceDeposed addr key s")
      (auto dest: inv_MaybeRestore)
qed (auto simp add: SyncState_RemoveModule_def inv_RemoveModule inv_SetOutputValue inv_SetLocalValue
    inv_SetResourceProvider inv_RemoveOutputValue inv_RemoveLocalValue inv_RemoveResource
    inv_RemoveResourceIfEmpty inv_SetResourceInstanceCurrent inv_ForgetResourceInstanceAll
    inv_ForgetResourceInstanceDeposed inv_RemovePlanned SyncState_DiscardCheckResults_def
    SyncState_RecordCheckResults_def inv_CheckResults
    dest: inv_SetResourceInstanceDeposed inv_DeposeForceKey)

lemma inv_run:
  "PruningInvariant s \<Longrightarrow> s' \<in> set (run ops s) \<Longrightarrow> PruningInvariant s'"
proof (induction ops arbitrary: s)
  case Nil
  then show ?case by simp
next
  case (Cons op ops)
  show ?case
  proof (cases "apply_op op s")
    case (Inl e)
    with Cons.prems show ?thesis by simp
  next
    case (Inr s1)
    have s1: "PruningInvariant s1"
      using Cons.prems(1) Inr by (rule inv_apply_op)
    from Cons.prems(2) Inr have "s' = s1 \<or> s' \<in> set (run ops s1)"
      by simp
    with s1 Cons.IH show ?thesis by blast
  qed
qed

text \<open>
  Claim C1, as amended. For every sequence of facade write, removal and lifecycle
  operations that starts from a tree which contains the root module and in which every
  non-root module has at least one resource, output value or local value, after every
  operation that completes the tree is such a tree again: the root module is present,
  whatever it contains, and every non-root module present has at least one resource,
  output value or local value.
\<close>

theorem pruning_invariant:
  assumes "PruningInvariant s" and "s' \<in> set (run ops s)"
  shows "PruningInvariant s'
       \<and> SyncState_Module RootModuleInstance s' \<noteq> None
       \<and> (\<forall>a ms. SyncState_Module a s' = Some ms \<and> \<not> IsRoot a \<longrightarrow> \<not> Module_empty ms)"
proof -
  from assms have "PruningInvariant s'"
    by (rule inv_run)
  then show ?thesis
    by (auto simp add: PruningInvariant_iff SyncState_Module_def)
qed

lemma ex_run:
  "run ex_ops ex_new =
     [\<lparr>Modules = [(RootModuleInstance, NewModule),
                 (ex_child, \<lparr>Resources = [],
                    OutputValues = [(''x'', \<lparr>Value = ''v'', Sensitive = False, Deprecated = []\<rparr>)],
                    LocalValues = []\<rparr>)],
       CheckResults = None\<rparr>,
      \<lparr>Modules = [(RootModuleInstance, NewModule),
                 (ex_child, \<lparr>Resources =
                      [(ex_res, \<lparr>Instances = [(NoKey, \<lparr>Current = Some ex_planned, Deposed = []\<rparr>)],
                                 ProviderConfig = ''provider'', ProviderKey = NoKey\<rparr>)],
                    OutputValues = [(''x'', \<lparr>Value = ''v'', Sensitive = False, Deprecated = []\<rparr>)],
                    LocalValues = []\<rparr>)],
       CheckResults = None\<rparr>,
      ex_tree [(NoKey, \<lparr>Current = Some ex_planned, Deposed = []\<rparr>)],
      ex_new]"
  by (simp add: ex_ops_def ex_defs read_defs SyncState_SetOutputValue_def State_EnsureModule_def
      State_putModule_def Module_SetOutputValue_def SyncState_SetResourceInstanceCurrent_def
      Module_SetResourceInstanceCurrent_def Module_storeInstance_def HasObjects_def
      NewResource_def NewResourceInstance_def maybePruneModule_def Module_empty_def
      SyncState_RemoveOutputValue_def Module_RemoveOutputValue_def
      SyncState_RemovePlannedResourceInstanceObjects_def RemovePlanned_module_def
      RemovePlanned_resource_def RemovePlanned_instance_def State_RemoveModule_def Let_def)


text \<open>
  A run on a fresh tree: an output and a planned object are written into a child module,
  the output is removed, and the planned objects are discarded, which empties the child
  module and prunes it.
\<close>

theorem pruning_invariant_witness:
  "PruningInvariant ex_new
   \<and> ex_tree [(NoKey, \<lparr>Current = Some ex_planned, Deposed = []\<rparr>)] \<in> set (run ex_ops ex_new)
   \<and> PruningInvariant (ex_tree [(NoKey, \<lparr>Current = Some ex_planned, Deposed = []\<rparr>)])
   \<and> last (run ex_ops ex_new) = ex_new
   \<and> SyncState_Module ex_child (last (run ex_ops ex_new)) = None
   \<and> SyncState_Module RootModuleInstance (last (run ex_ops ex_new)) \<noteq> None"
proof -
  have i: "PruningInvariant ex_new"
    by (simp add: PruningInvariant_def emptyNonRootModules_def ex_defs read_defs)
  have m: "ex_tree [(NoKey, \<lparr>Current = Some ex_planned, Deposed = []\<rparr>)] \<in> set (run ex_ops ex_new)"
    by (simp add: ex_run)
  have l: "last (run ex_ops ex_new) = ex_new"
    by (simp add: ex_run)
  have n: "ex_new \<in> set (run ex_ops ex_new)"
    by (simp add: ex_run)
  have c: "SyncState_Module ex_child ex_new = None"
    by (simp add: ex_defs read_defs)
  from i m l c pruning_invariant [OF i m] pruning_invariant [OF i n] show ?thesis
    by simp
qed

text \<open>
  The claim as stated starts from any tree that contains the root module. A tree that
  holds the root module and an empty child module is such a tree; writing an output of
  the root module completes and leaves the child module as it was, present and empty.
\<close>

theorem pruning_invariant_counterexample:
  "SyncState_Module RootModuleInstance ex_dangling \<noteq> None
   \<and> run [OpSetOutputValue (ex_out RootModuleInstance) ''v'' False []] ex_dangling =
       [\<lparr>Modules =
           [(RootModuleInstance,
             \<lparr>Resources = [],
              OutputValues = [(''x'', \<lparr>Value = ''v'', Sensitive = False, Deprecated = []\<rparr>)],
              LocalValues = []\<rparr>),
            (ex_child, NewModule)],
         CheckResults = None\<rparr>]
   \<and> SyncState_Module ex_child
       \<lparr>Modules =
          [(RootModuleInstance,
            \<lparr>Resources = [],
             OutputValues = [(''x'', \<lparr>Value = ''v'', Sensitive = False, Deprecated = []\<rparr>)],
             LocalValues = []\<rparr>),
           (ex_child, NewModule)],
        CheckResults = None\<rparr> = Some NewModule
   \<and> \<not> IsRoot ex_child
   \<and> Module_empty NewModule"
  by (simp add: ex_defs read_defs SyncState_SetOutputValue_def State_EnsureModule_def
      State_putModule_def Module_SetOutputValue_def Module_empty_def)

section \<open>Idempotent absence\<close>

lemma RemoveResource_untracked_module:
  assumes "State_Module s (ar_Module addr) = None" and "\<not> IsRoot (ar_Module addr)"
  shows "SyncState_RemoveResource addr s = s"
proof -
  have e: "Module_empty (Module_RemoveResource (ar_Resource addr) NewModule)"
    by (simp add: Module_empty_def Module_RemoveResource_def NewModule_def)
  show ?thesis
    using assms e
    by (simp add: SyncState_RemoveResource_def State_EnsureModule_cases State_putModule_twice
        maybePruneModule_def State_Module_putModule State_RemoveModule_putModule_untracked)
qed

lemma RemoveResource_untracked_resource:
  assumes "State_Module s (ar_Module addr) = Some ms"
    and "Module_Resource ms (ar_Resource addr) = None"
    and "IsRoot (ar_Module addr) \<or> \<not> Module_empty ms"
  shows "SyncState_RemoveResource addr s = s"
  using assms
  by (simp add: SyncState_RemoveResource_def State_EnsureModule_cases
      Module_RemoveResource_untracked State_putModule_same maybePruneModule_nonempty)

text \<open>
  Claim C6, as amended. For every tree that contains the root module and in which no
  non-root module is empty, RemoveModule on an untracked module, RemoveResource on an
  untracked resource (its module tracked or not) and ForgetResourceInstanceAll on an
  untracked instance return, and the tree afterwards is the tree before, so that every
  read accessor sees what it saw. In particular RemoveResource on an untracked non-root
  module leaves no module behind. (None of these operations can panic.)
\<close>

theorem idempotent_absence:
  assumes inv: "PruningInvariant s"
  shows "(SyncState_Module m s = None \<longrightarrow> SyncState_RemoveModule m s = s)
       \<and> (SyncState_Resource r s = None \<longrightarrow> SyncState_RemoveResource r s = s)
       \<and> (SyncState_Module (ar_Module r) s = None
            \<longrightarrow> SyncState_Module (ar_Module r) (SyncState_RemoveResource r s) = None)
       \<and> (SyncState_ResourceInstance i s = None \<longrightarrow> SyncState_ForgetResourceInstanceAll i s = s)"
proof (intro conjI impI)
  assume "SyncState_Module m s = None"
  then show "SyncState_RemoveModule m s = s"
    by (simp add: SyncState_Module_def SyncState_RemoveModule_def State_RemoveModule_untracked)
next
  assume r: "SyncState_Resource r s = None"
  show "SyncState_RemoveResource r s = s"
  proof (cases "State_Module s (ar_Module r)")
    case None
    with inv have "\<not> IsRoot (ar_Module r)"
      by (auto simp add: PruningInvariant_iff IsRoot_iff)
    with None show ?thesis
      by (rule RemoveResource_untracked_module)
  next
    case (Some ms)
    with r have "Module_Resource ms (ar_Resource r) = None"
      by (simp add: SyncState_Resource_def State_Resource_def)
    moreover from inv Some have "IsRoot (ar_Module r) \<or> \<not> Module_empty ms"
      by (simp add: PruningInvariant_iff)
    ultimately show ?thesis
      using Some by (simp add: RemoveResource_untracked_resource)
  qed
next
  assume m: "SyncState_Module (ar_Module r) s = None"
  with inv have "\<not> IsRoot (ar_Module r)"
    by (auto simp add: PruningInvariant_iff IsRoot_iff SyncState_Module_def)
  with m have "SyncState_RemoveResource r s = s"
    by (simp add: SyncState_Module_def RemoveResource_untracked_module)
  with m show "SyncState_Module (ar_Module r) (SyncState_RemoveResource r s) = None"
    by simp
next
  assume i: "SyncState_ResourceInstance i s = None"
  show "SyncState_ForgetResourceInstanceAll i s = s"
  proof (cases "State_Module s (ari_Module i)")
    case None
    then show ?thesis
      by (simp add: SyncState_ForgetResourceInstanceAll_def)
  next
    case (Some ms)
    with i have "Module_ForgetResourceInstanceAll (ari_Resource i) ms = ms"
      by (simp add: SyncState_ResourceInstance_def State_ResourceInstance_def
          ForgetAll_untracked_instance)
    moreover from inv Some have "IsRoot (ari_Module i) \<or> \<not> Module_empty ms"
      by (simp add: PruningInvariant_iff)
    ultimately show ?thesis
      using Some
      by (simp add: SyncState_ForgetResourceInstanceAll_def State_putModule_same
          maybePruneModule_nonempty)
  qed
qed

text \<open>
  On the example tree, whose child module holds one resource with one instance: an
  untracked module, a resource of an untracked module, and an untracked instance of the
  tracked resource.
\<close>

theorem idempotent_absence_witness:
  "PruningInvariant (ex_tree [(NoKey, \<lparr>Current = Some ex_obj, Deposed = []\<rparr>)])
   \<and> SyncState_RemoveModule ex_ghost (ex_tree [(NoKey, \<lparr>Current = Some ex_obj, Deposed = []\<rparr>)]) =
       ex_tree [(NoKey, \<lparr>Current = Some ex_obj, Deposed = []\<rparr>)]
   \<and> SyncState_RemoveResource (ex_absres ex_ghost)
       (ex_tree [(NoKey, \<lparr>Current = Some ex_obj, Deposed = []\<rparr>)]) =
       ex_tree [(NoKey, \<lparr>Current = Some ex_obj, Deposed = []\<rparr>)]
   \<and> SyncState_Module ex_ghost
       (SyncState_RemoveResource (ex_absres ex_ghost)
          (ex_tree [(NoKey, \<lparr>Current = Some ex_obj, Deposed = []\<rparr>)])) = None
   \<and> SyncState_ForgetResourceInstanceAll
       \<lparr>ari_Module = ex_child, ari_Resource = \<lparr>ri_Resource = ex_res, ri_Key = IntKey 1\<rparr>\<rparr>
       (ex_tree [(NoKey, \<lparr>Current = Some ex_obj, Deposed = []\<rparr>)]) =
       ex_tree [(NoKey, \<lparr>Current = Some ex_obj, Deposed = []\<rparr>)]"
proof -
  let ?t = "ex_tree [(NoKey, \<lparr>Current = Some ex_obj, Deposed = []\<rparr>)]"
  let ?i = "\<lparr>ari_Module = ex_child, ari_Resource = \<lparr>ri_Resource = ex_res, ri_Key = IntKey 1\<rparr>\<rparr>"
  have inv: "PruningInvariant ?t"
    by (simp add: PruningInvariant_def emptyNonRootModules_def ex_defs read_defs Module_empty_def)
  have m: "SyncState_Module ex_ghost ?t = None"
    by (simp add: ex_defs read_defs)
  have r: "SyncState_Resource (ex_absres ex_ghost) ?t = None"
    by (simp add: ex_defs read_defs)
  have mr: "SyncState_Module (ar_Module (ex_absres ex_ghost)) ?t = None"
    by (simp add: ex_defs read_defs)
  have i: "SyncState_ResourceInstance ?i ?t = None"
    by (simp add: ex_defs read_defs)
  have g: "ar_Module (ex_absres ex_ghost) = ex_ghost"
    by (simp add: ex_absres_def)
  from idempotent_absence [OF inv, of ex_ghost "ex_absres ex_ghost" ?i] m r mr i
  have "SyncState_RemoveModule ex_ghost ?t = ?t
      \<and> SyncState_RemoveResource (ex_absres ex_ghost) ?t = ?t
      \<and> SyncState_Module (ar_Module (ex_absres ex_ghost))
          (SyncState_RemoveResource (ex_absres ex_ghost) ?t) = None
      \<and> SyncState_ForgetResourceInstanceAll ?i ?t = ?t"
    by blast
  with inv g m show ?thesis
    by simp
qed

text \<open>
  The claim as stated holds for every tree. In the tree of the root module and an empty
  child module the resource is untracked, and RemoveResource and
  ForgetResourceInstanceAll at that address prune the child module: a read of the module
  gave an empty module before and gives nothing afterwards.
\<close>

theorem idempotent_absence_counterexample:
  "SyncState_Module RootModuleInstance ex_dangling \<noteq> None
   \<and> SyncState_Resource (ex_absres ex_child) ex_dangling = None
   \<and> SyncState_ResourceInstance (ex_inst ex_child) ex_dangling = None
   \<and> SyncState_Module ex_child ex_dangling = Some NewModule
   \<and> SyncState_RemoveResource (ex_absres ex_child) ex_dangling = ex_new
   \<and> SyncState_ForgetResourceInstanceAll (ex_inst ex_child) ex_dangling = ex_new
   \<and> SyncState_Module ex_child ex_new = None"
  by (simp add: ex_defs read_defs SyncState_RemoveResource_def State_EnsureModule_def
      State_putModule_def Module_RemoveResource_def maybePruneModule_def Module_empty_def
      State_RemoveModule_def SyncState_ForgetResourceInstanceAll_def
      Module_ForgetResourceInstanceAll_def)

section \<open>Read isolation\<close>

subsection \<open>Stores that agree on the cells of the tree\<close>

lemma agree_iff: "agree n h h' \<longleftrightarrow> n \<le> length h \<and> n \<le> length h' \<and> (\<forall>i<n. h' ! i = h ! i)"
  by (auto simp add: agree_def list_all_iff)

lemma mutated_iff:
  "mutated owned h h' \<longleftrightarrow> length h \<le> length h' \<and> (\<forall>i<length h. i \<notin> set owned \<longrightarrow> h' ! i = h ! i)"
  by (auto simp add: mutated_def list_all_iff)

lemma agree_append: "agree (length h) h (h @ ext)"
  by (simp add: agree_iff nth_append)

lemma readEdges_cong:
  "(\<And>x v. x \<in> set es \<Longrightarrow> rd (snd x) = Some v \<Longrightarrow> rd' (snd x) = Some v)
     \<Longrightarrow> readEdges rd es = Some vs \<Longrightarrow> readEdges rd' es = Some vs"
  by (induction es arbitrary: vs) (auto split: option.splits)

lemma read_frame:
  "read d h r = Some v \<Longrightarrow> agree (length h) h h' \<Longrightarrow> read d h' r = Some v"
proof (induction d arbitrary: r v)
  case 0
  then show ?case by simp
next
  case (Suc d)
  from Suc.prems(1) have r: "r < length h"
    by (simp split: if_splits)
  with Suc.prems(2) have c: "h' ! r = h ! r" and r': "r < length h'"
    by (auto simp add: agree_iff)
  from Suc.prems(1) r obtain vs where
    vs: "readEdges (read d h) (cell_edges (h ! r)) = Some vs" and
    v: "v = Snapshot (cell_fields (h ! r)) vs"
    by (auto split: option.splits)
  have "readEdges (read d h') (cell_edges (h ! r)) = Some vs"
    using _ vs
  proof (rule readEdges_cong)
    fix x w
    assume "read d h (snd x) = Some w"
    then show "read d h' (snd x) = Some w"
      using Suc.prems(2) by (rule Suc.IH)
  qed
  with c r' v show ?case
    by simp
qed


lemma readEdges_frame:
  "readEdges (read d h) es = Some vs \<Longrightarrow> agree (length h) h h' \<Longrightarrow> readEdges (read d h') es = Some vs"
  by (erule readEdges_cong [rotated]) (rule read_frame)

lemma reach_frame:
  "set (reach d h r) \<subseteq> {..<length h} \<Longrightarrow> reach d (h @ ext) r = reach d h r"
proof (induction d arbitrary: r)
  case 0
  then show ?case by simp
next
  case (Suc d)
  from Suc.prems have r: "r < length h"
    by simp
  have "map (\<lambda>x. reach d (h @ ext) (snd x)) (cell_edges (h ! r)) =
        map (\<lambda>x. reach d h (snd x)) (cell_edges (h ! r))"
  proof (rule map_cong [OF refl])
    fix x
    assume "x \<in> set (cell_edges (h ! r))"
    with Suc.prems r have "set (reach d h (snd x)) \<subseteq> {..<length h}"
      by auto
    then show "reach d (h @ ext) (snd x) = reach d h (snd x)"
      by (rule Suc.IH)
  qed
  then have "concat (map (\<lambda>x. reach d (h @ ext) (snd x)) (cell_edges (h ! r))) =
        concat (map (\<lambda>x. reach d h (snd x)) (cell_edges (h ! r)))"
    by (rule arg_cong)
  with r show ?case
    by (simp add: nth_append)
qed

subsection \<open>A deep copy is made of new cells\<close>

lemma copyEdges_copied:
  assumes d: "\<And>h r v. read d h r = Some v \<Longrightarrow>
      \<exists>r' ext. DeepCopy d h r = Some (r', h @ ext)
         \<and> read d (h @ ext) r' = Some v
         \<and> set (reach d (h @ ext) r') \<subseteq> {length h..<length h + length ext}"
  shows "readEdges (read d h) es = Some vs \<Longrightarrow>
         \<exists>es' ext. copyEdges (DeepCopy d) h es = Some (es', h @ ext)
           \<and> readEdges (read d (h @ ext)) es' = Some vs
           \<and> (\<forall>x\<in>set es'. set (reach d (h @ ext) (snd x)) \<subseteq> {length h..<length h + length ext})"
proof (induction es arbitrary: h vs)
  case Nil
  then have "copyEdges (DeepCopy d) h [] = Some ([], h @ [])
      \<and> readEdges (read d (h @ [])) [] = Some vs
      \<and> (\<forall>x\<in>set []. set (reach d (h @ []) (snd x)) \<subseteq> {length h..<length h + length ([]::heap)})"
    by simp
  then show ?case by blast
next
  case (Cons x xs)
  from Cons.prems obtain v vs1 where
    v: "read d h (snd x) = Some v" and
    vs1: "readEdges (read d h) xs = Some vs1" and
    vs: "vs = (fst x, v) # vs1"
    by (auto split: option.splits)
  from d [OF v] obtain r1 e1 where
    c1: "DeepCopy d h (snd x) = Some (r1, h @ e1)" and
    v1: "read d (h @ e1) r1 = Some v" and
    f1: "set (reach d (h @ e1) r1) \<subseteq> {length h..<length h + length e1}"
    by blast
  from vs1 have "readEdges (read d (h @ e1)) xs = Some vs1"
    by (rule readEdges_frame) (rule agree_append)
  from Cons.IH [OF this] obtain xs' e2 where
    c2: "copyEdges (DeepCopy d) (h @ e1) xs = Some (xs', (h @ e1) @ e2)" and
    v2: "readEdges (read d ((h @ e1) @ e2)) xs' = Some vs1" and
    f2: "\<forall>y\<in>set xs'. set (reach d ((h @ e1) @ e2) (snd y))
            \<subseteq> {length (h @ e1)..<length (h @ e1) + length e2}"
    by blast
  have v1': "read d ((h @ e1) @ e2) r1 = Some v"
    using v1 by (rule read_frame) (rule agree_append)
  from f1 have "set (reach d (h @ e1) r1) \<subseteq> {..<length (h @ e1)}"
    by auto
  then have "reach d ((h @ e1) @ e2) r1 = reach d (h @ e1) r1"
    by (rule reach_frame)
  with f1 have f1': "set (reach d ((h @ e1) @ e2) r1) \<subseteq> {length h..<length h + length (e1 @ e2)}"
    by auto
  from f2 have f2': "\<forall>y\<in>set xs'. set (reach d ((h @ e1) @ e2) (snd y))
            \<subseteq> {length h..<length h + length (e1 @ e2)}"
    by fastforce
  have "copyEdges (DeepCopy d) h (x # xs) = Some ((fst x, r1) # xs', h @ (e1 @ e2))"
    using c1 c2 by simp
  moreover have "readEdges (read d (h @ (e1 @ e2))) ((fst x, r1) # xs') = Some vs"
    using v1' v2 vs by simp
  moreover have "\<forall>y\<in>set ((fst x, r1) # xs'). set (reach d (h @ (e1 @ e2)) (snd y))
            \<subseteq> {length h..<length h + length (e1 @ e2)}"
    using f1' f2' by simp
  ultimately show ?case by blast
qed

lemma DeepCopy_copied:
  "read d h r = Some v \<Longrightarrow>
     \<exists>r' ext. DeepCopy d h r = Some (r', h @ ext)
        \<and> read d (h @ ext) r' = Some v
        \<and> set (reach d (h @ ext) r') \<subseteq> {length h..<length h + length ext}"
proof (induction d arbitrary: h r v)
  case 0
  then show ?case by simp
next
  case (Suc d)
  from Suc.prems have r: "r < length h"
    by (simp split: if_splits)
  with Suc.prems obtain vs where
    vs: "readEdges (read d h) (cell_edges (h ! r)) = Some vs" and
    v: "v = Snapshot (cell_fields (h ! r)) vs"
    by (auto split: option.splits)
  from copyEdges_copied [of d, OF Suc.IH vs] obtain es' ext where
    c: "copyEdges (DeepCopy d) h (cell_edges (h ! r)) = Some (es', h @ ext)" and
    ve: "readEdges (read d (h @ ext)) es' = Some vs" and
    f: "\<forall>x\<in>set es'. set (reach d (h @ ext) (snd x)) \<subseteq> {length h..<length h + length ext}"
    by blast
  let ?c = "Cell (cell_fields (h ! r)) es'"
  let ?h = "h @ (ext @ [?c])"
  have copy: "DeepCopy (Suc d) h r = Some (length (h @ ext), ?h)"
    using r c by simp
  have "readEdges (read d ((h @ ext) @ [?c])) es' = Some vs"
    using ve by (rule readEdges_frame) (rule agree_append)
  then have val: "read (Suc d) ?h (length (h @ ext)) = Some v"
    using v by (simp add: nth_append)
  have "\<forall>x\<in>set es'. set (reach d ?h (snd x)) \<subseteq> {length h..<length h + length (ext @ [?c])}"
  proof
    fix x
    assume x: "x \<in> set es'"
    with f have s: "set (reach d (h @ ext) (snd x)) \<subseteq> {length h..<length h + length ext}"
      by blast
    then have "set (reach d (h @ ext) (snd x)) \<subseteq> {..<length (h @ ext)}"
      by auto
    then have "reach d ((h @ ext) @ [?c]) (snd x) = reach d (h @ ext) (snd x)"
      by (rule reach_frame)
    with s show "set (reach d ?h (snd x)) \<subseteq> {length h..<length h + length (ext @ [?c])}"
      by auto
  qed
  then have fresh: "set (reach (Suc d) ?h (length (h @ ext)))
      \<subseteq> {length h..<length h + length (ext @ [?c])}"
    by (auto simp add: nth_append)
  from copy val fresh show ?case
    by blast
qed

lemma DeepCopy_private:
  assumes "read d h r = Some v"
  obtains r' ext where "DeepCopy d h r = Some (r', h @ ext)"
    and "read d (h @ ext) r' = Some v"
    and "set (reach d (h @ ext) r') \<subseteq> {length h..<length h + length ext}"
  using DeepCopy_copied [OF assms] by blast

lemma mutated_agree:
  assumes m: "mutated owned (h @ ext) h'"
    and o: "set owned \<subseteq> {length h..<length h + length ext}"
  shows "agree (length h) h h'"
  unfolding agree_iff
proof (intro conjI allI impI)
  show "length h \<le> length h" by simp
  from m show "length h \<le> length h'"
    by (simp add: mutated_iff)
  fix i
  assume i: "i < length h"
  with o have "i \<notin> set owned"
    by auto
  with m i have "h' ! i = (h @ ext) ! i"
    by (simp add: mutated_iff)
  with i show "h' ! i = h ! i"
    by (simp add: nth_append)
qed

lemma mutated_refl: "mutated owned h h"
  by (simp add: mutated_iff)

lemma mutated_update:
  "mutated owned h h1 \<Longrightarrow> i \<in> set owned \<Longrightarrow> mutated owned h (h1[i := c])"
proof -
  assume m: "mutated owned h h1" and i: "i \<in> set owned"
  have "h1[i := c] ! j = h ! j" if j: "j < length h" "j \<notin> set owned" for j
  proof -
    from i j have "i \<noteq> j" by auto
    then have "h1[i := c] ! j = h1 ! j" by (rule nth_list_update_neq)
    with m j show ?thesis by (simp add: mutated_iff)
  qed
  with m show ?thesis
    by (simp add: mutated_iff)
qed

subsection \<open>The pointers of the tree\<close>

lemma HeapSync_read_copyOut: "HeapSync_read acc ps = copyOut (depth acc) (target ps acc) ps"
  by (cases acc)
    (simp_all add: HeapSync_Module_def HeapSync_Resource_def HeapSync_ResourceInstance_def
      HeapSync_ResourceInstanceObject_def HeapSync_OutputValue_def copyOut_def split: option.splits)

lemma field_ptr_frame:
  "field_ptr h r e = Some p \<Longrightarrow> agree (length h) h h' \<Longrightarrow> field_ptr h' r e = Some p"
  by (auto simp add: field_ptr_def agree_iff split: if_splits)

lemma HeapState_Module_frame [simp]:
  "HeapState_Module (ps\<lparr>p_heap := h'\<rparr>) addr = HeapState_Module ps addr"
  by (simp add: HeapState_Module_def)

lemma HeapState_Resource_frame:
  "HeapState_Resource ps addr = Some p \<Longrightarrow> agree (length (p_heap ps)) (p_heap ps) h'
     \<Longrightarrow> HeapState_Resource (ps\<lparr>p_heap := h'\<rparr>) addr = Some p"
  by (auto simp add: HeapState_Resource_def split: option.splits intro: field_ptr_frame)

lemma HeapState_OutputValue_frame:
  "HeapState_OutputValue ps addr = Some p \<Longrightarrow> agree (length (p_heap ps)) (p_heap ps) h'
     \<Longrightarrow> HeapState_OutputValue (ps\<lparr>p_heap := h'\<rparr>) addr = Some p"
  by (auto simp add: HeapState_OutputValue_def split: option.splits intro: field_ptr_frame)

lemma HeapState_ResourceInstance_frame:
  assumes "HeapState_ResourceInstance ps addr = Some p"
    and a: "agree (length (p_heap ps)) (p_heap ps) h'"
  shows "HeapState_ResourceInstance (ps\<lparr>p_heap := h'\<rparr>) addr = Some p"
proof -
  from assms(1) obtain rs where
    rs: "HeapState_Resource ps
           \<lparr>ar_Module = ari_Module addr, ar_Resource = ri_Resource (ari_Resource addr)\<rparr> = Some rs"
    and p: "field_ptr (p_heap ps) rs (InstanceEdge (ri_Key (ari_Resource addr))) = Some p"
    by (auto simp add: HeapState_ResourceInstance_def split: option.splits)
  from HeapState_Resource_frame [OF rs a] field_ptr_frame [OF p a] show ?thesis
    by (simp add: HeapState_ResourceInstance_def)
qed

lemma target_frame:
  assumes t: "target ps acc = Some p" and a: "agree (length (p_heap ps)) (p_heap ps) h'"
  shows "target (ps\<lparr>p_heap := h'\<rparr>) acc = Some p"
proof (cases acc)
  case (AccModule addr)
  with t show ?thesis by simp
next
  case (AccResource addr)
  with t a show ?thesis by (simp add: HeapState_Resource_frame)
next
  case (AccResourceInstance addr)
  with t a show ?thesis by (simp add: HeapState_ResourceInstance_frame)
next
  case (AccResourceInstanceObject addr gen)
  with t obtain inst where
    i: "HeapState_ResourceInstance ps addr = Some inst" and
    p: "field_ptr (p_heap ps) inst (GenerationEdge gen) = Some p"
    by (auto split: option.splits)
  from HeapState_ResourceInstance_frame [OF i a] field_ptr_frame [OF p a]
    AccResourceInstanceObject
  show ?thesis by simp
next
  case (AccOutputValue addr)
  with t a show ?thesis by (simp add: HeapState_OutputValue_frame)
qed

lemma moduleOutputs_frame:
  "moduleOutputs h parentAddr call ms = Some os \<Longrightarrow> agree (length h) h h'
     \<Longrightarrow> moduleOutputs h' parentAddr call ms = Some os"
  by (induction ms arbitrary: os) (auto simp add: agree_iff split: if_splits option.splits)


lemma readEdges_values:
  "readEdges rd es = Some vs \<Longrightarrow> map rd (map snd es) = map (\<lambda>x. Some (snd x)) vs"
  by (induction es arbitrary: vs) (auto split: option.splits)


subsection \<open>A well-typed store holds a value at every pointer\<close>

lemmas depth_defs = depth_Module_def depth_Resource_def depth_Instance_def depth_Object_def
  depth_Output_def

lemma kindOK_level: "kindOK f e f' \<Longrightarrow> level f' < level f"
  by (induction f e f' rule: kindOK.induct) (simp_all add: depth_defs)

lemma kindOK_Resource: "kindOK f (ResourceEdge a) f' \<Longrightarrow> level f' = depth_Resource"
  by (induction f "ResourceEdge a" f' rule: kindOK.induct) simp_all

lemma kindOK_Output: "kindOK f (OutputEdge a) f' \<Longrightarrow> level f' = depth_Output"
  by (induction f "OutputEdge a" f' rule: kindOK.induct) simp_all

lemma kindOK_Instance: "kindOK f (InstanceEdge a) f' \<Longrightarrow> level f' = depth_Instance"
  by (induction f "InstanceEdge a" f' rule: kindOK.induct) simp_all

lemma kindOK_Generation: "kindOK f (GenerationEdge a) f' \<Longrightarrow> level f' = depth_Object"
  by (induction f "GenerationEdge a" f' rule: kindOK.induct) simp_all

lemma readEdges_total:
  "(\<And>x. x \<in> set es \<Longrightarrow> \<exists>v. rd (snd x) = Some v) \<Longrightarrow> \<exists>vs. readEdges rd es = Some vs"
proof (induction es)
  case Nil
  then show ?case by simp
next
  case (Cons x xs)
  from Cons.prems [of x] obtain v where "rd (snd x) = Some v"
    by auto
  moreover from Cons.IH Cons.prems obtain vs where "readEdges rd xs = Some vs"
    by auto
  ultimately show ?case
    by simp
qed

lemma read_total:
  assumes wt: "list_all (cellOK h) h"
  shows "r < length h \<Longrightarrow> level (cell_fields (h ! r)) \<le> d \<Longrightarrow> \<exists>v. read d h r = Some v"
proof (induction d arbitrary: r)
  case 0
  then show ?case
    by (cases "cell_fields (h ! r)") (simp_all add: depth_defs)
next
  case (Suc d)
  from wt Suc.prems(1) have c: "cellOK h (h ! r)"
    by (simp add: list_all_iff)
  have "\<exists>vs. readEdges (read d h) (cell_edges (h ! r)) = Some vs"
  proof (rule readEdges_total)
    fix x
    assume "x \<in> set (cell_edges (h ! r))"
    with c have x: "snd x < length h" and
      k: "kindOK (cell_fields (h ! r)) (fst x) (cell_fields (h ! snd x))"
      by (auto simp add: cellOK_def list_all_iff)
    from kindOK_level [OF k] Suc.prems(2) have "level (cell_fields (h ! snd x)) \<le> d"
      by simp
    with x show "\<exists>v. read d h (snd x) = Some v"
      by (rule Suc.IH)
  qed
  with Suc.prems(1) show ?case
    by auto
qed

lemma field_ptr_typed:
  assumes wt: "list_all (cellOK h) h" and p: "field_ptr h r e = Some p"
  shows "p < length h \<and> kindOK (cell_fields (h ! r)) e (cell_fields (h ! p))"
proof -
  from p have r: "r < length h" and m: "map_of (cell_edges (h ! r)) e = Some p"
    by (auto simp add: field_ptr_def split: if_splits)
  from m have "(e, p) \<in> set (cell_edges (h ! r))"
    by (rule map_of_SomeD)
  moreover from wt r have "cellOK h (h ! r)"
    by (simp add: list_all_iff)
  ultimately show ?thesis
    by (auto simp add: cellOK_def list_all_iff)
qed

lemma target_typed:
  assumes wt: "wellTyped ps" and t: "target ps acc = Some p"
  shows "p < length (p_heap ps) \<and> level (cell_fields (p_heap ps ! p)) \<le> depth acc"
proof -
  from wt have h: "list_all (cellOK (p_heap ps)) (p_heap ps)"
    by (simp add: wellTyped_def)
  note ft = field_ptr_typed [OF h]
  show ?thesis
  proof (cases acc)
    case (AccModule addr)
    with t have "(addr, p) \<in> set (p_Modules ps)"
      by (auto simp add: HeapState_Module_def dest: map_of_SomeD)
    with wt AccModule show ?thesis
      by (auto simp add: wellTyped_def list_all_iff)
  next
    case (AccResource addr)
    with t obtain ms where "field_ptr (p_heap ps) ms (ResourceEdge (ar_Resource addr)) = Some p"
      by (auto simp add: HeapState_Resource_def split: option.splits)
    from ft [OF this] AccResource show ?thesis
      by (auto dest: kindOK_Resource)
  next
    case (AccResourceInstance addr)
    with t obtain rs where
      "field_ptr (p_heap ps) rs (InstanceEdge (ri_Key (ari_Resource addr))) = Some p"
      by (auto simp add: HeapState_ResourceInstance_def split: option.splits)
    from ft [OF this] AccResourceInstance show ?thesis
      by (auto dest: kindOK_Instance)
  next
    case (AccResourceInstanceObject addr gen)
    with t obtain inst where "field_ptr (p_heap ps) inst (GenerationEdge gen) = Some p"
      by (auto split: option.splits)
    from ft [OF this] AccResourceInstanceObject show ?thesis
      by (auto dest: kindOK_Generation)
  next
    case (AccOutputValue addr)
    with t obtain ms where "field_ptr (p_heap ps) ms (OutputEdge (aov_Name addr)) = Some p"
      by (auto simp add: HeapState_OutputValue_def split: option.splits)
    from ft [OF this] AccOutputValue show ?thesis
      by (auto dest: kindOK_Output)
  qed
qed

lemma visible_total:
  assumes wt: "wellTyped ps" and t: "target ps acc = Some p"
  shows "\<exists>v. visible ps acc = Some v"
proof -
  from wt have h: "list_all (cellOK (p_heap ps)) (p_heap ps)"
    by (simp add: wellTyped_def)
  from target_typed [OF wt t] read_total [OF h, of p "depth acc"]
  obtain v where "read (depth acc) (p_heap ps) p = Some v"
    by blast
  with t show ?thesis
    by (simp add: visible_def)
qed

lemma moduleOutputs_total:
  assumes h: "list_all (cellOK h) h"
  shows "list_all (\<lambda>m. snd m < length h \<and> level (cell_fields (h ! snd m)) = depth_Module) ms
     \<Longrightarrow> \<exists>os. moduleOutputs h parentAddr call ms = Some os
            \<and> (\<forall>x\<in>set os. \<exists>v. read depth_Output h (snd x) = Some v)"
proof (induction ms)
  case Nil
  then show ?case by simp
next
  case (Cons m ms)
  from Cons obtain os where
    os: "moduleOutputs h parentAddr call ms = Some os" and
    rd: "\<forall>x\<in>set os. \<exists>v. read depth_Output h (snd x) = Some v"
    by auto
  from Cons.prems have m: "snd m < length h"
    by simp
  with h have c: "cellOK h (h ! snd m)"
    by (simp add: list_all_iff)
  have "\<exists>v. read depth_Output h (snd x) = Some v"
    if x: "x \<in> set (filter isOutputEdge (cell_edges (h ! snd m)))" for x
  proof -
    from x obtain name where e: "fst x = OutputEdge name"
      by (auto simp add: isOutputEdge_def split: edge.splits)
    from x c have p: "snd x < length h" and
      k: "kindOK (cell_fields (h ! snd m)) (fst x) (cell_fields (h ! snd x))"
      by (auto simp add: cellOK_def list_all_iff)
    from k e have "level (cell_fields (h ! snd x)) \<le> depth_Output"
      by (auto dest: kindOK_Output)
    with h p show ?thesis
      by (rule read_total)
  qed
  with os rd m show ?case
    by auto
qed

lemma visibleOutputs_total:
  assumes wt: "wellTyped ps"
  shows "\<exists>vs. visibleOutputs ps parentAddr call = Some vs"
proof -
  from wt have h: "list_all (cellOK (p_heap ps)) (p_heap ps)" and
    m: "list_all (\<lambda>m. snd m < length (p_heap ps)
                    \<and> level (cell_fields (p_heap ps ! snd m)) = depth_Module) (p_Modules ps)"
    by (simp_all add: wellTyped_def)
  from moduleOutputs_total [OF h m, of parentAddr call] obtain os where
    os: "moduleOutputs (p_heap ps) parentAddr call (p_Modules ps) = Some os" and
    rd: "\<forall>x\<in>set os. \<exists>v. read depth_Output (p_heap ps) (snd x) = Some v"
    by blast
  from rd have "\<exists>vs. readEdges (read depth_Output (p_heap ps)) os = Some vs"
    by (intro readEdges_total) blast
  with os show ?thesis
    by (simp add: visibleOutputs_def HeapState_ModuleOutputs_def)
qed

subsection \<open>The copy and the tree\<close>

lemma read_copy:
  assumes vis: "visible ps acc = Some v"
  shows "\<exists>r' h'. HeapSync_read acc ps = Some (Some r', ps\<lparr>p_heap := h'\<rparr>)
           \<and> read (depth acc) h' r' = Some v
           \<and> list_all (\<lambda>i. length (p_heap ps) \<le> i) (reach (depth acc) h' r')
           \<and> (\<forall>h''. mutated (reach (depth acc) h' r') h' h''
                \<longrightarrow> visible (ps\<lparr>p_heap := h''\<rparr>) acc = Some v)"
proof -
  from vis obtain p where
    t: "target ps acc = Some p" and
    rd: "read (depth acc) (p_heap ps) p = Some v"
    by (auto simp add: visible_def split: option.splits)
  from rd obtain r' ext where
    c: "DeepCopy (depth acc) (p_heap ps) p = Some (r', p_heap ps @ ext)" and
    v: "read (depth acc) (p_heap ps @ ext) r' = Some v" and
    f: "set (reach (depth acc) (p_heap ps @ ext) r')
          \<subseteq> {length (p_heap ps)..<length (p_heap ps) + length ext}"
    by (rule DeepCopy_private)
  have r: "HeapSync_read acc ps = Some (Some r', ps\<lparr>p_heap := p_heap ps @ ext\<rparr>)"
    using t c by (simp add: HeapSync_read_copyOut copyOut_def)
  from f have new: "list_all (\<lambda>i. length (p_heap ps) \<le> i) (reach (depth acc) (p_heap ps @ ext) r')"
    by (auto simp add: list_all_iff)
  have iso: "visible (ps\<lparr>p_heap := h''\<rparr>) acc = Some v"
    if m: "mutated (reach (depth acc) (p_heap ps @ ext) r') (p_heap ps @ ext) h''" for h''
  proof -
    from m f have a: "agree (length (p_heap ps)) (p_heap ps) h''"
      by (rule mutated_agree)
    from t a have "target (ps\<lparr>p_heap := h''\<rparr>) acc = Some p"
      by (rule target_frame)
    moreover from rd a have "read (depth acc) h'' p = Some v"
      by (rule read_frame)
    ultimately show ?thesis
      by (simp add: visible_def)
  qed
  from r v new iso show ?thesis
    by blast
qed

lemma read_isolation_outputs:
  assumes vis: "visibleOutputs ps parentAddr call = Some vs"
  shows "\<exists>rs' h'. HeapSync_ModuleOutputs parentAddr call ps = Some (rs', ps\<lparr>p_heap := h'\<rparr>)
           \<and> map (read depth_Output h') rs' = map (\<lambda>x. Some (snd x)) vs
           \<and> list_all (\<lambda>i. length (p_heap ps) \<le> i) (concat (map (reach depth_Output h') rs'))
           \<and> (\<forall>h''. mutated (concat (map (reach depth_Output h') rs')) h' h''
                \<longrightarrow> visibleOutputs (ps\<lparr>p_heap := h''\<rparr>) parentAddr call = Some vs)"
proof -
  from vis obtain os where
    os: "HeapState_ModuleOutputs ps parentAddr call = Some os" and
    rd: "readEdges (read depth_Output (p_heap ps)) os = Some vs"
    by (auto simp add: visibleOutputs_def split: option.splits)
  from copyEdges_copied [of depth_Output, OF DeepCopy_copied rd] obtain os' ext where
    c: "copyEdges (DeepCopy depth_Output) (p_heap ps) os = Some (os', p_heap ps @ ext)" and
    v: "readEdges (read depth_Output (p_heap ps @ ext)) os' = Some vs" and
    f: "\<forall>x\<in>set os'. set (reach depth_Output (p_heap ps @ ext) (snd x))
          \<subseteq> {length (p_heap ps)..<length (p_heap ps) + length ext}"
    by blast
  define h' where "h' = p_heap ps @ ext"
  define rs' where "rs' = map snd os'"
  have r: "HeapSync_ModuleOutputs parentAddr call ps = Some (rs', ps\<lparr>p_heap := h'\<rparr>)"
    using os c by (simp add: HeapSync_ModuleOutputs_def h'_def rs'_def)
  have vals: "map (read depth_Output h') rs' = map (\<lambda>x. Some (snd x)) vs"
    using readEdges_values [OF v] by (simp only: h'_def rs'_def)
  have own: "set (concat (map (reach depth_Output h') rs'))
      \<subseteq> {length (p_heap ps)..<length (p_heap ps) + length ext}"
  proof
    fix i
    assume "i \<in> set (concat (map (reach depth_Output h') rs'))"
    then obtain x where x: "x \<in> set os'" and
      i: "i \<in> set (reach depth_Output (p_heap ps @ ext) (snd x))"
      unfolding h'_def rs'_def by auto
    from f x have "set (reach depth_Output (p_heap ps @ ext) (snd x))
          \<subseteq> {length (p_heap ps)..<length (p_heap ps) + length ext}"
      by (rule bspec)
    with i show "i \<in> {length (p_heap ps)..<length (p_heap ps) + length ext}"
      by (rule subsetD [rotated])
  qed
  have new: "list_all (\<lambda>i. length (p_heap ps) \<le> i) (concat (map (reach depth_Output h') rs'))"
    unfolding list_all_iff
  proof
    fix i
    assume "i \<in> set (concat (map (reach depth_Output h') rs'))"
    with own have "i \<in> {length (p_heap ps)..<length (p_heap ps) + length ext}"
      by (rule subsetD)
    then show "length (p_heap ps) \<le> i"
      by simp
  qed
  have iso: "visibleOutputs (ps\<lparr>p_heap := h''\<rparr>) parentAddr call = Some vs"
    if m: "mutated (concat (map (reach depth_Output h') rs')) h' h''" for h''
  proof -
    from m have "mutated (concat (map (reach depth_Output h') rs')) (p_heap ps @ ext) h''"
      by (simp only: h'_def)
    then have a: "agree (length (p_heap ps)) (p_heap ps) h''"
      using own by (rule mutated_agree)
    from os have "moduleOutputs (p_heap ps) parentAddr call (p_Modules ps) = Some os"
      by (simp only: HeapState_ModuleOutputs_def)
    then have "moduleOutputs h'' parentAddr call (p_Modules ps) = Some os"
      using a by (rule moduleOutputs_frame)
    then have "HeapState_ModuleOutputs (ps\<lparr>p_heap := h''\<rparr>) parentAddr call = Some os"
      by (simp add: HeapState_ModuleOutputs_def)
    moreover from rd a have "readEdges (read depth_Output h'') os = Some vs"
      by (rule readEdges_frame)
    ultimately show ?thesis
      by (simp add: visibleOutputs_def)
  qed
  from r vals new iso show ?thesis
    by blast
qed

text \<open>
  Claim C9. In every well-typed store, for each of the read accessors Module, Resource,
  ResourceInstance, ResourceInstanceObject and OutputValue: where the tree holds an object
  at the address, the accessor returns a pointer to a copy that has the value of that
  object and is made of cells allocated by the call, none of them a cell of the tree; and
  whatever the caller then writes to the cells that the returned pointer gives access to,
  the value that the tree holds at the address, and with it the value of the copy that
  the next call of the accessor returns, is the one it was. Where the tree holds nothing
  at the address the accessor returns nil and leaves the store as it was. The same holds
  for the list of copies that ModuleOutputs returns.
\<close>

theorem read_isolation:
  assumes wt: "wellTyped ps"
  shows "(\<forall>p. target ps acc = Some p \<longrightarrow>
      (\<exists>v r' h'. visible ps acc = Some v
         \<and> HeapSync_read acc ps = Some (Some r', ps\<lparr>p_heap := h'\<rparr>)
         \<and> read (depth acc) h' r' = Some v
         \<and> list_all (\<lambda>i. length (p_heap ps) \<le> i) (reach (depth acc) h' r')
         \<and> (\<forall>h''. mutated (reach (depth acc) h' r') h' h''
              \<longrightarrow> visible (ps\<lparr>p_heap := h''\<rparr>) acc = Some v
                \<and> (\<exists>r2 h2. HeapSync_read acc (ps\<lparr>p_heap := h''\<rparr>) =
                              Some (Some r2, ps\<lparr>p_heap := h2\<rparr>)
                      \<and> read (depth acc) h2 r2 = Some v))))
   \<and> (target ps acc = None \<longrightarrow> HeapSync_read acc ps = Some (None, ps))
   \<and> (\<exists>vs rs' h'. visibleOutputs ps parentAddr call = Some vs
         \<and> HeapSync_ModuleOutputs parentAddr call ps = Some (rs', ps\<lparr>p_heap := h'\<rparr>)
         \<and> map (read depth_Output h') rs' = map (\<lambda>x. Some (snd x)) vs
         \<and> list_all (\<lambda>i. length (p_heap ps) \<le> i) (concat (map (reach depth_Output h') rs'))
         \<and> (\<forall>h''. mutated (concat (map (reach depth_Output h') rs')) h' h''
              \<longrightarrow> visibleOutputs (ps\<lparr>p_heap := h''\<rparr>) parentAddr call = Some vs))"
proof (intro conjI allI impI)
  fix p
  assume t: "target ps acc = Some p"
  from visible_total [OF wt t] obtain v where vis: "visible ps acc = Some v"
    by blast
  from read_copy [OF vis] obtain r' h' where
    r: "HeapSync_read acc ps = Some (Some r', ps\<lparr>p_heap := h'\<rparr>)" and
    v: "read (depth acc) h' r' = Some v" and
    new: "list_all (\<lambda>i. length (p_heap ps) \<le> i) (reach (depth acc) h' r')" and
    iso: "\<And>h''. mutated (reach (depth acc) h' r') h' h''
            \<Longrightarrow> visible (ps\<lparr>p_heap := h''\<rparr>) acc = Some v"
    by blast
  have again: "\<exists>r2 h2. HeapSync_read acc (ps\<lparr>p_heap := h''\<rparr>) = Some (Some r2, ps\<lparr>p_heap := h2\<rparr>)
                  \<and> read (depth acc) h2 r2 = Some v"
    if m: "mutated (reach (depth acc) h' r') h' h''" for h''
  proof -
    from m have "visible (ps\<lparr>p_heap := h''\<rparr>) acc = Some v"
      by (rule iso)
    from read_copy [OF this] show ?thesis
      by auto
  qed
  from vis r v new iso again
  show "\<exists>v r' h'. visible ps acc = Some v
         \<and> HeapSync_read acc ps = Some (Some r', ps\<lparr>p_heap := h'\<rparr>)
         \<and> read (depth acc) h' r' = Some v
         \<and> list_all (\<lambda>i. length (p_heap ps) \<le> i) (reach (depth acc) h' r')
         \<and> (\<forall>h''. mutated (reach (depth acc) h' r') h' h''
              \<longrightarrow> visible (ps\<lparr>p_heap := h''\<rparr>) acc = Some v
                \<and> (\<exists>r2 h2. HeapSync_read acc (ps\<lparr>p_heap := h''\<rparr>) =
                              Some (Some r2, ps\<lparr>p_heap := h2\<rparr>)
                      \<and> read (depth acc) h2 r2 = Some v))"
    by blast
next
  assume "target ps acc = None"
  then show "HeapSync_read acc ps = Some (None, ps)"
    by (simp add: HeapSync_read_copyOut copyOut_def)
next
  from visibleOutputs_total [OF wt] obtain vs where
    vis: "visibleOutputs ps parentAddr call = Some vs"
    by blast
  from read_isolation_outputs [OF vis] vis
  show "\<exists>vs rs' h'. visibleOutputs ps parentAddr call = Some vs
         \<and> HeapSync_ModuleOutputs parentAddr call ps = Some (rs', ps\<lparr>p_heap := h'\<rparr>)
         \<and> map (read depth_Output h') rs' = map (\<lambda>x. Some (snd x)) vs
         \<and> list_all (\<lambda>i. length (p_heap ps) \<le> i) (concat (map (reach depth_Output h') rs'))
         \<and> (\<forall>h''. mutated (concat (map (reach depth_Output h') rs')) h' h''
              \<longrightarrow> visibleOutputs (ps\<lparr>p_heap := h''\<rparr>) parentAddr call = Some vs)"
    by blast
qed

lemmas heap_defs = ex_heap_def ex_pstate_def ex_child_snapshot_def visible_def HeapState_Module_def
  HeapState_Resource_def HeapState_ResourceInstance_def HeapState_OutputValue_def field_ptr_def
  depth_Module_def depth_Resource_def depth_Instance_def depth_Object_def depth_Output_def

lemma ex_visible: "visible ex_pstate (AccModule ex_child) = Some ex_child_snapshot"
  by (simp add: heap_defs ex_defs)

lemma ex_copy:
  "HeapSync_read (AccModule ex_child) ex_pstate =
     Some (Some 12, ex_pstate\<lparr>p_heap := ex_copied_heap\<rparr>)"
  by (simp add: heap_defs ex_defs HeapSync_Module_def copyOut_def ex_copied_heap_def)

lemma ex_reach: "reach depth_Module ex_copied_heap 12 = [12, 10, 9, 7, 8, 11]"
  by (simp add: heap_defs ex_copied_heap_def)

lemma ex_mutated:
  "mutated (reach depth_Module ex_copied_heap 12) ex_copied_heap ex_mutated_heap"
  unfolding ex_reach ex_mutated_heap_def
  by (intro mutated_update mutated_refl) simp_all

text \<open>
  On the example tree the child module is copied out into six new cells. The caller
  replaces the current object of the copy and empties the copy of the module; the copy
  has changed, and the tree still holds the module as it was.
\<close>

theorem read_isolation_witness:
  "wellTyped ex_pstate
   \<and> target ex_pstate (AccModule ex_child) = Some 5
   \<and> visible ex_pstate (AccModule ex_child) = Some ex_child_snapshot
   \<and> HeapSync_read (AccModule ex_child) ex_pstate =
       Some (Some 12, ex_pstate\<lparr>p_heap := ex_copied_heap\<rparr>)
   \<and> mutated (reach (depth (AccModule ex_child)) ex_copied_heap 12) ex_copied_heap ex_mutated_heap
   \<and> read (depth (AccModule ex_child)) ex_mutated_heap 12 = Some (Snapshot (ModuleFields []) [])
   \<and> visible (ex_pstate\<lparr>p_heap := ex_mutated_heap\<rparr>) (AccModule ex_child) = Some ex_child_snapshot"
proof -
  have wt: "wellTyped ex_pstate"
    by (simp add: wellTyped_def cellOK_def heap_defs ex_defs)
  have t: "target ex_pstate (AccModule ex_child) = Some 5"
    by (simp add: heap_defs ex_defs)
  have m: "mutated (reach (depth (AccModule ex_child)) ex_copied_heap 12) ex_copied_heap
      ex_mutated_heap"
    using ex_mutated by simp
  have c: "read (depth (AccModule ex_child)) ex_mutated_heap 12 = Some (Snapshot (ModuleFields []) [])"
    by (simp add: heap_defs ex_mutated_heap_def ex_copied_heap_def)
  from read_isolation [OF wt, of "AccModule ex_child"] t
  obtain v r' h' where
    v: "visible ex_pstate (AccModule ex_child) = Some v" and
    r: "HeapSync_read (AccModule ex_child) ex_pstate = Some (Some r', ex_pstate\<lparr>p_heap := h'\<rparr>)"
    and iso: "\<And>h''. mutated (reach (depth (AccModule ex_child)) h' r') h' h''
        \<Longrightarrow> visible (ex_pstate\<lparr>p_heap := h''\<rparr>) (AccModule ex_child) = Some v"
    by blast
  from v ex_visible have v': "v = ex_child_snapshot"
    by simp
  from r ex_copy have r': "r' = 12" and
    "ex_pstate\<lparr>p_heap := h'\<rparr> = ex_pstate\<lparr>p_heap := ex_copied_heap\<rparr>"
    by simp_all
  then have "p_heap (ex_pstate\<lparr>p_heap := h'\<rparr>) = p_heap (ex_pstate\<lparr>p_heap := ex_copied_heap\<rparr>)"
    by (simp only:)
  then have h': "h' = ex_copied_heap"
    by simp
  from iso [of ex_mutated_heap] m r' h' v'
  have "visible (ex_pstate\<lparr>p_heap := ex_mutated_heap\<rparr>) (AccModule ex_child) = Some ex_child_snapshot"
    by simp
  with wt t ex_visible ex_copy m c show ?thesis
    by simp
qed

end
